theory Spec2Isabelle
  imports Main "HOL-Library.Multiset"
begin

section \<open>Record model\<close>

text \<open>
  \<^verbatim>\<open>WeekIdentifier\<close> and \<^verbatim>\<open>WeeklyData\<close> of \<^verbatim>\<open>models/WeeklyData.ts\<close>.
  The fields \<^verbatim>\<open>year\<close> and \<^verbatim>\<open>week\<close> are JavaScript numbers that hold integers;
  no layer validates their range.
\<close>

record WeekIdentifier =
  year :: int
  week :: int

record WeeklyData =
  weekId :: WeekIdentifier
  statusIcon :: string
  achievements :: string
  challenges :: string

text \<open>
  \<^verbatim>\<open>SaveWeeklyDataInput\<close> of \<^verbatim>\<open>repositories/RepositoryTypes.ts\<close>: every field but the
  key is optional; \<open>None\<close> is the absent (\<^verbatim>\<open>undefined\<close>) property.
\<close>

record SaveWeeklyDataInput =
  in_weekId :: WeekIdentifier
  in_statusIcon :: "string option"
  in_achievements :: "string option"
  in_challenges :: "string option"

text \<open>
  \<^verbatim>\<open>constants/WeekStatus.ts\<close>. Icons are emoji; a \<open>string\<close> holds their UTF-8 bytes.
  The \<^verbatim>\<open>description\<close> display text of each status is left out.
\<close>

record WeekStatus =
  icon :: string
  title :: string

definition WEEK_STATUSES :: "WeekStatus list" where
  "WEEK_STATUSES =
    [\<lparr>icon = [CHR 0xF0, CHR 0x9F, CHR 0x98, CHR 0x80], title = ''Great''\<rparr>,
     \<lparr>icon = [CHR 0xF0, CHR 0x9F, CHR 0x99, CHR 0x82], title = ''Good''\<rparr>,
     \<lparr>icon = [CHR 0xF0, CHR 0x9F, CHR 0x98, CHR 0x90], title = ''Okay''\<rparr>,
     \<lparr>icon = [CHR 0xF0, CHR 0x9F, CHR 0x99, CHR 0x81], title = ''Rough''\<rparr>,
     \<lparr>icon = [CHR 0xF0, CHR 0x9F, CHR 0x98, CHR 0x96], title = ''Awful''\<rparr>,
     \<lparr>icon = [CHR 0xF0, CHR 0x9F, CHR 0xA4, CHR 0x92], title = ''Unwell''\<rparr>,
     \<lparr>icon = [CHR 0xF0, CHR 0x9F, CHR 0x98, CHR 0x8E], title = ''Vacation''\<rparr>,
     \<lparr>icon = [CHR 0xF0, CHR 0x9F, CHR 0xAB, CHR 0xA5], title = ''Other''\<rparr>,
     \<lparr>icon = [CHR 0xE2, CHR 0x9D, CHR 0x94], title = ''Unknown''\<rparr>]"

definition DEFAULT_WEEK_STATUS :: WeekStatus where
  "DEFAULT_WEEK_STATUS = WEEK_STATUSES ! 8"

text \<open>\<^verbatim>\<open>DEFAULT_WEEKLY_DATA_VALUES\<close> of \<^verbatim>\<open>models/WeeklyData.defaults.ts\<close>.\<close>

definition DEFAULT_statusIcon :: string where
  "DEFAULT_statusIcon = icon DEFAULT_WEEK_STATUS"

definition DEFAULT_achievements :: string where
  "DEFAULT_achievements = ''''"

definition DEFAULT_challenges :: string where
  "DEFAULT_challenges = ''''"

section \<open>Errors and results\<close>

text \<open>
  A rejected promise or a thrown exception is the left summand of the result; the error
  carries the \<^verbatim>\<open>name\<close> and \<^verbatim>\<open>message\<close> properties the source inspects.
\<close>

datatype js_error = JsError (err_name: string) (err_message: string)

type_synonym 'a result = "js_error + 'a"

text \<open>\<^verbatim>\<open>new Error(message)\<close>.\<close>

definition new_Error :: "string \<Rightarrow> js_error" where
  "new_Error msg = JsError ''Error'' msg"

text \<open>The string an error turns into inside a template literal: \<^verbatim>\<open>name: message\<close>.\<close>

definition error_toString :: "js_error \<Rightarrow> string" where
  "error_toString e = err_name e @ '': '' @ err_message e"

text \<open>
  The merge of one field in both layers' \<^verbatim>\<open>save\<close>:
  \<^verbatim>\<open>input.f ?? existing?.f ?? DEFAULT.f\<close>.
\<close>

definition coalesce :: "'a option \<Rightarrow> 'a option \<Rightarrow> 'a \<Rightarrow> 'a" where
  "coalesce supplied existing dflt =
     (case supplied of Some v \<Rightarrow> v
      | None \<Rightarrow> (case existing of Some v \<Rightarrow> v | None \<Rightarrow> dflt))"

definition buildDataToSave :: "SaveWeeklyDataInput \<Rightarrow> WeekIdentifier \<Rightarrow> WeeklyData option \<Rightarrow> WeeklyData" where
  "buildDataToSave input identifier existing =
     \<lparr>weekId = identifier,
      statusIcon = coalesce (in_statusIcon input) (map_option statusIcon existing) DEFAULT_statusIcon,
      achievements = coalesce (in_achievements input) (map_option achievements existing) DEFAULT_achievements,
      challenges = coalesce (in_challenges input) (map_option challenges existing) DEFAULT_challenges\<rparr>"

definition toPlainWeekId :: "WeekIdentifier \<Rightarrow> WeekIdentifier" where
  "toPlainWeekId w = \<lparr>year = year w, week = week w\<rparr>"

section \<open>Array.prototype.sort with a comparator\<close>

text \<open>
  The sort of ECMAScript is stable. For a comparator that is a consistent ordering the
  result is the one stable sorted arrangement, which insertion from the right computes:
  an element goes in front of the first element it does not compare greater than.
\<close>

fun insert_by :: "('a \<Rightarrow> 'a \<Rightarrow> int) \<Rightarrow> 'a \<Rightarrow> 'a list \<Rightarrow> 'a list" where
  "insert_by cmp x [] = [x]"
| "insert_by cmp x (y # ys) = (if cmp x y \<le> 0 then x # y # ys else y # insert_by cmp x ys)"

definition array_sort :: "('a \<Rightarrow> 'a \<Rightarrow> int) \<Rightarrow> 'a list \<Rightarrow> 'a list" where
  "array_sort cmp xs = foldr (insert_by cmp) xs []"

section \<open>The embedded store (IndexedDBLayer.ts)\<close>

text \<open>
  The object store \<^verbatim>\<open>weekly-data\<close> has the key path
  \<^verbatim>\<open>['weekId.year', 'weekId.week']\<close>: the key of a record is read out of the record.
  Array keys are ordered element by element, as \<^verbatim>\<open>indexedDB.cmp\<close> orders them.
\<close>

type_synonym idb_key = "int \<times> int"

definition keyOf :: "WeeklyData \<Rightarrow> idb_key" where
  "keyOf r = (year (weekId r), week (weekId r))"

definition idb_cmp :: "idb_key \<Rightarrow> idb_key \<Rightarrow> int" where
  "idb_cmp a b =
     (if fst a < fst b then - 1 else if fst b < fst a then 1
      else if snd a < snd b then - 1 else if snd b < snd a then 1 else 0)"

text \<open>
  The state of the database as the layer sees it: the records of the store, and what the
  browser answers. \<open>open_error\<close> is the message of a failing \<^verbatim>\<open>indexedDB.open\<close>,
  \<open>request_error\<close> the message of a failing request; \<open>None\<close> is a healthy database.
\<close>

record idb =
  open_error :: "string option"
  request_error :: "string option"
  objectStore :: "WeeklyData list"

text \<open>
  The requests of the platform on the records of the store. \<^verbatim>\<open>put\<close> replaces the record
  of the same key; \<^verbatim>\<open>getAll\<close> and \<^verbatim>\<open>getAllKeys\<close> answer in ascending key order;
  \<^verbatim>\<open>IDBKeyRange.bound\<close> throws a \<^verbatim>\<open>DataError\<close> when the lower bound is greater than the
  upper bound (Indexed Database API, the steps of \<^verbatim>\<open>bound\<close>).
\<close>

definition store_put :: "WeeklyData \<Rightarrow> WeeklyData list \<Rightarrow> WeeklyData list" where
  "store_put r recs = filter (\<lambda>x. keyOf x \<noteq> keyOf r) recs @ [r]"

definition store_get :: "idb_key \<Rightarrow> WeeklyData list \<Rightarrow> WeeklyData option" where
  "store_get k recs = find (\<lambda>x. keyOf x = k) recs"

definition store_delete :: "idb_key \<Rightarrow> WeeklyData list \<Rightarrow> WeeklyData list" where
  "store_delete k recs = filter (\<lambda>x. keyOf x \<noteq> k) recs"

definition IDBKeyRange_bound :: "idb_key \<Rightarrow> idb_key \<Rightarrow> (idb_key \<times> idb_key) result" where
  "IDBKeyRange_bound lower upper =
     (if idb_cmp lower upper > 0
      then Inl (JsError ''DataError'' ''The data provided does not meet requirements.'')
      else Inr (lower, upper))"

definition store_getAll :: "idb_key \<times> idb_key \<Rightarrow> WeeklyData list \<Rightarrow> WeeklyData list" where
  "store_getAll keyRange recs =
     array_sort (\<lambda>a b. idb_cmp (keyOf a) (keyOf b))
       (filter (\<lambda>x. idb_cmp (fst keyRange) (keyOf x) \<le> 0 \<and> idb_cmp (keyOf x) (snd keyRange) \<le> 0) recs)"

definition yearIndex_getAllKeys :: "int \<Rightarrow> WeeklyData list \<Rightarrow> idb_key list" where
  "yearIndex_getAllKeys y recs =
     map keyOf (array_sort (\<lambda>a b. idb_cmp (keyOf a) (keyOf b))
       (filter (\<lambda>x. year (weekId x) = y) recs))"

definition initDB :: "idb \<Rightarrow> unit result" where
  "initDB db =
     (case open_error db of
        Some m \<Rightarrow> Inl (new_Error (''Failed to open IndexedDB: '' @ m))
      | None \<Rightarrow> Inr ())"

definition executeTransaction ::
    "idb \<Rightarrow> (WeeklyData list \<Rightarrow> 'a \<times> WeeklyData list) \<Rightarrow> 'a result \<times> idb" where
  "executeTransaction db callback =
     (case initDB db of
        Inl e \<Rightarrow> (Inl e, db)
      | Inr _ \<Rightarrow>
          (case request_error db of
             Some m \<Rightarrow> (Inl (new_Error (''IndexedDB transaction failed: '' @ m)), db)
           | None \<Rightarrow>
               (case callback (objectStore db) of
                  (r, recs) \<Rightarrow> (Inr r, db\<lparr>objectStore := recs\<rparr>))))"

definition IndexedDBLayer_get :: "idb \<Rightarrow> WeekIdentifier \<Rightarrow> WeeklyData option result \<times> idb" where
  "IndexedDBLayer_get db wid =
     executeTransaction db (\<lambda>recs. (store_get (year wid, week wid) recs, recs))"

definition IndexedDBLayer_save :: "idb \<Rightarrow> SaveWeeklyDataInput \<Rightarrow> WeeklyData result \<times> idb" where
  "IndexedDBLayer_save db input =
     (let identifier = toPlainWeekId (in_weekId input) in
      case IndexedDBLayer_get db identifier of
        (Inl e, db1) \<Rightarrow> (Inl e, db1)
      | (Inr existing, db1) \<Rightarrow>
          (let dataToSave = buildDataToSave input identifier existing in
           case executeTransaction db1 (\<lambda>recs. ((), store_put dataToSave recs)) of
             (Inl e, db2) \<Rightarrow> (Inl e, db2)
           | (Inr _, db2) \<Rightarrow> (Inr dataToSave, db2)))"

definition IndexedDBLayer_getRange ::
    "idb \<Rightarrow> WeekIdentifier \<Rightarrow> WeekIdentifier \<Rightarrow> WeeklyData list result \<times> idb" where
  "IndexedDBLayer_getRange db start end =
     (case initDB db of
        Inl e \<Rightarrow> (Inl e, db)
      | Inr _ \<Rightarrow>
          (case IDBKeyRange_bound (year start, week start) (year end, week end) of
             Inl e \<Rightarrow> (Inl e, db)
           | Inr keyRange \<Rightarrow>
               (case request_error db of
                  Some m \<Rightarrow> (Inl (new_Error (''Failed to get range: '' @ m)), db)
                | None \<Rightarrow> (Inr (store_getAll keyRange (objectStore db)), db))))"

definition IndexedDBLayer_getByYear :: "idb \<Rightarrow> int \<Rightarrow> WeeklyData list result \<times> idb" where
  "IndexedDBLayer_getByYear db y =
     IndexedDBLayer_getRange db \<lparr>year = y, week = 1\<rparr> \<lparr>year = y, week = 53\<rparr>"

definition IndexedDBLayer_getWeeksWithData :: "idb \<Rightarrow> int \<Rightarrow> int set result \<times> idb" where
  "IndexedDBLayer_getWeeksWithData db y =
     (case initDB db of
        Inl e \<Rightarrow> (Inl e, db)
      | Inr _ \<Rightarrow>
          (case request_error db of
             Some m \<Rightarrow> (Inl (new_Error (''Failed to get week numbers: '' @ m)), db)
           | None \<Rightarrow> (Inr (set (map snd (yearIndex_getAllKeys y (objectStore db)))), db)))"

definition IndexedDBLayer_delete :: "idb \<Rightarrow> WeekIdentifier \<Rightarrow> unit result \<times> idb" where
  "IndexedDBLayer_delete db wid =
     executeTransaction db (\<lambda>recs. ((), store_delete (year wid, week wid) recs))"

definition IndexedDBLayer_clear :: "idb \<Rightarrow> unit result \<times> idb" where
  "IndexedDBLayer_clear db = executeTransaction db (\<lambda>recs. ((), []))"

section \<open>The document-file layer (FileSystemLayer.ts)\<close>

subsection \<open>Objects keyed by week number\<close>

text \<open>
  \<^verbatim>\<open>Record<number, WeeklyData>\<close> is a JavaScript object. Its properties enumerate with
  the array-index keys first, ascending, and the other keys after them in the order they
  were added. The association list keeps that order.
\<close>

definition is_array_index :: "int \<Rightarrow> bool" where
  "is_array_index k \<longleftrightarrow> 0 \<le> k \<and> k < 4294967295"

fun obj_add :: "int \<Rightarrow> 'v \<Rightarrow> (int \<times> 'v) list \<Rightarrow> (int \<times> 'v) list" where
  "obj_add k v [] = [(k, v)]"
| "obj_add k v (p # ps) =
     (if is_array_index k \<and> (\<not> is_array_index (fst p) \<or> k < fst p)
      then (k, v) # p # ps else p # obj_add k v ps)"

definition obj_set :: "int \<Rightarrow> 'v \<Rightarrow> (int \<times> 'v) list \<Rightarrow> (int \<times> 'v) list" where
  "obj_set k v ps =
     (if k \<in> fst ` set ps then map (\<lambda>p. if fst p = k then (k, v) else p) ps
      else obj_add k v ps)"

definition obj_delete :: "int \<Rightarrow> (int \<times> 'v) list \<Rightarrow> (int \<times> 'v) list" where
  "obj_delete k ps = filter (\<lambda>p. fst p \<noteq> k) ps"

record YearJournalData =
  yj_year :: int
  weeks :: "(int \<times> WeeklyData) list"

subsection \<open>The directory\<close>

text \<open>
  An entry of the directory is a file or a subdirectory. The text of a file either parses
  to a year journal (\<^verbatim>\<open>JSON.parse\<close> undoes \<^verbatim>\<open>JSON.stringify\<close>) or does not parse.
  The directory lists its entries by name, each name once.
\<close>

datatype entry = JournalFile YearJournalData | MalformedFile | SubDirectory

datatype PermissionState = granted | denied | prompt

text \<open>
  The state of the layer: the two private fields of the class, what the platform answers
  during \<^verbatim>\<open>init\<close>, and the entries of the directory the handle opens.
  \<open>persistedHandle\<close> tells whether \<^verbatim>\<open>loadDirectoryHandle\<close> finds a handle;
  \<open>showDirectoryPicker\<close> is \<open>None\<close> when the user picks the directory and the error
  otherwise.
\<close>

record fs =
  directoryHandle :: bool
  initPromise :: "unit result option"
  persistedHandle :: bool
  showDirectoryPicker :: "js_error option"
  queryPermission :: PermissionState
  requestPermission :: PermissionState
  entries :: "(string \<times> entry) list"

definition init_body :: "fs \<Rightarrow> unit result \<times> fs" where
  "init_body st =
     (case (if directoryHandle st then (Inr (), st)
            else if persistedHandle st then (Inr (), st\<lparr>directoryHandle := True\<rparr>)
            else (case showDirectoryPicker st of
                    Some e \<Rightarrow>
                      (Inl (new_Error (''Failed to get directory access: '' @ error_toString e)), st)
                  | None \<Rightarrow> (Inr (), st\<lparr>directoryHandle := True, persistedHandle := True\<rparr>)))
      of (Inl e, st1) \<Rightarrow> (Inl e, st1)
       | (Inr _, st1) \<Rightarrow>
           (if queryPermission st1 \<noteq> granted \<and> requestPermission st1 \<noteq> granted
            then (Inl (new_Error ''Write permission denied for directory''), st1)
            else (Inr (), st1)))"

definition init :: "fs \<Rightarrow> unit result \<times> fs" where
  "init st =
     (case initPromise st of
        Some r \<Rightarrow> (r, st)
      | None \<Rightarrow> (case init_body st of (r, st1) \<Rightarrow> (r, st1\<lparr>initPromise := Some r\<rparr>)))"

definition getDirectoryHandle :: "fs \<Rightarrow> unit result \<times> fs" where
  "getDirectoryHandle st =
     (case init st of
        (Inl e, st1) \<Rightarrow> (Inl e, st1)
      | (Inr _, st1) \<Rightarrow>
          (if \<not> directoryHandle st1 then (Inl (new_Error ''Directory handle not initialized''), st1)
           else (Inr (), st1)))"

subsection \<open>File names\<close>

definition digit_char :: "nat \<Rightarrow> char" where
  "digit_char n = ''0123456789'' ! n"

fun string_of_nat :: "nat \<Rightarrow> string" where
  "string_of_nat n =
     (if n < 10 then [digit_char n] else string_of_nat (n div 10) @ [digit_char (n mod 10)])"

declare string_of_nat.simps [simp del]

definition string_of_int :: "int \<Rightarrow> string" where
  "string_of_int i = (if i < 0 then CHR ''-'' # string_of_nat (nat (- i)) else string_of_nat (nat i))"

definition getFileName :: "int \<Rightarrow> string" where
  "getFileName y = ''work-journal-'' @ string_of_int y @ ''.json''"

definition is_digit :: "char \<Rightarrow> bool" where
  "is_digit c \<longleftrightarrow> c \<in> set ''0123456789''"

definition digit_value :: "char \<Rightarrow> int" where
  "digit_value c = int (of_char c) - 48"

definition parseInt :: "string \<Rightarrow> int" where
  "parseInt ds = foldl (\<lambda>a c. 10 * a + digit_value c) 0 ds"

text \<open>The pattern \<^verbatim>\<open>/^work-journal-(\d{4})\.json$/\<close>: thirteen characters, four digits, five characters.\<close>

definition parseFileName :: "string \<Rightarrow> int option" where
  "parseFileName fileName =
     (if length fileName = 22 \<and> take 13 fileName = ''work-journal-''
         \<and> list_all is_digit (take 4 (drop 13 fileName)) \<and> drop 17 fileName = ''.json''
      then Some (parseInt (take 4 (drop 13 fileName))) else None)"

definition endsWith :: "string \<Rightarrow> string \<Rightarrow> bool" where
  "endsWith s suffix \<longleftrightarrow> length suffix \<le> length s \<and> drop (length s - length suffix) s = suffix"

subsection \<open>The platform's directory operations\<close>

definition dir_getFileHandle :: "string \<Rightarrow> (string \<times> entry) list \<Rightarrow> entry result" where
  "dir_getFileHandle fileName es =
     (case map_of es fileName of
        None \<Rightarrow> Inl (JsError ''NotFoundError'' ''File not found'')
      | Some SubDirectory \<Rightarrow> Inl (JsError ''TypeMismatchError'' ''The path supplied exists, but was not an entry of requested type.'')
      | Some f \<Rightarrow> Inr f)"

definition JSON_parse :: "entry \<Rightarrow> YearJournalData result" where
  "JSON_parse f =
     (case f of
        JournalFile j \<Rightarrow> Inr j
      | _ \<Rightarrow> Inl (JsError ''SyntaxError'' ''Unexpected token''))"

text \<open>\<^verbatim>\<open>getFileHandle(name, {create: true})\<close>, \<^verbatim>\<open>createWritable\<close>, \<^verbatim>\<open>write\<close> and \<^verbatim>\<open>close\<close>.\<close>

definition dir_writeFile :: "string \<Rightarrow> YearJournalData \<Rightarrow> (string \<times> entry) list \<Rightarrow> (string \<times> entry) list result" where
  "dir_writeFile fileName j es =
     (case map_of es fileName of
        None \<Rightarrow> Inr (es @ [(fileName, JournalFile j)])
      | Some SubDirectory \<Rightarrow> Inl (JsError ''TypeMismatchError'' ''The path supplied exists, but was not an entry of requested type.'')
      | Some _ \<Rightarrow> Inr (map (\<lambda>p. if fst p = fileName then (fileName, JournalFile j) else p) es))"

definition dir_removeEntry :: "string \<Rightarrow> (string \<times> entry) list \<Rightarrow> (string \<times> entry) list result" where
  "dir_removeEntry fileName es =
     (case map_of es fileName of
        None \<Rightarrow> Inl (JsError ''NotFoundError'' ''File not found'')
      | Some _ \<Rightarrow> Inr (filter (\<lambda>p. fst p \<noteq> fileName) es))"

subsection \<open>The operations of the layer\<close>

text \<open>The \<^verbatim>\<open>catch\<close> of \<^verbatim>\<open>readYearFile\<close>: a missing file is no data, anything else is rethrown.\<close>

definition readYearFile_catch :: "js_error \<Rightarrow> YearJournalData option result" where
  "readYearFile_catch e = (if err_name e = ''NotFoundError'' then Inr None else Inl e)"

definition readYearFile :: "fs \<Rightarrow> int \<Rightarrow> YearJournalData option result \<times> fs" where
  "readYearFile st y =
     (case getDirectoryHandle st of
        (Inl e, st1) \<Rightarrow> (readYearFile_catch e, st1)
      | (Inr _, st1) \<Rightarrow>
          (case dir_getFileHandle (getFileName y) (entries st1) of
             Inl e \<Rightarrow> (readYearFile_catch e, st1)
           | Inr f \<Rightarrow>
               (case JSON_parse f of
                  Inl e \<Rightarrow> (readYearFile_catch e, st1)
                | Inr j \<Rightarrow> (Inr (Some j), st1))))"

definition writeYearFile_catch :: "string \<Rightarrow> js_error \<Rightarrow> js_error" where
  "writeYearFile_catch fileName e =
     new_Error (''Failed to write file '' @ fileName @ '': '' @ error_toString e)"

definition writeYearFile :: "fs \<Rightarrow> int \<Rightarrow> YearJournalData \<Rightarrow> unit result \<times> fs" where
  "writeYearFile st y j =
     (let fileName = getFileName y in
      case getDirectoryHandle st of
        (Inl e, st1) \<Rightarrow> (Inl (writeYearFile_catch fileName e), st1)
      | (Inr _, st1) \<Rightarrow>
          (case dir_writeFile fileName j (entries st1) of
             Inl e \<Rightarrow> (Inl (writeYearFile_catch fileName e), st1)
           | Inr es \<Rightarrow> (Inr (), st1\<lparr>entries := es\<rparr>)))"

definition FileSystemLayer_save :: "fs \<Rightarrow> SaveWeeklyDataInput \<Rightarrow> WeeklyData result \<times> fs" where
  "FileSystemLayer_save st input =
     (let identifier = toPlainWeekId (in_weekId input);
          y = year identifier;
          weekNumber = week identifier
      in case readYearFile st y of
           (Inl e, st1) \<Rightarrow> (Inl e, st1)
         | (Inr found, st1) \<Rightarrow>
             (let yearData = (case found of Some j \<Rightarrow> j | None \<Rightarrow> \<lparr>yj_year = y, weeks = []\<rparr>);
                  existing = map_of (weeks yearData) weekNumber;
                  dataToSave = buildDataToSave input identifier existing;
                  yearData' = yearData\<lparr>weeks := obj_set weekNumber dataToSave (weeks yearData)\<rparr>
              in case writeYearFile st1 y yearData' of
                   (Inl e, st2) \<Rightarrow> (Inl e, st2)
                 | (Inr _, st2) \<Rightarrow> (Inr dataToSave, st2)))"

definition FileSystemLayer_get :: "fs \<Rightarrow> WeekIdentifier \<Rightarrow> WeeklyData option result \<times> fs" where
  "FileSystemLayer_get st wid =
     (case readYearFile st (year wid) of
        (Inl e, st1) \<Rightarrow> (Inl e, st1)
      | (Inr None, st1) \<Rightarrow> (Inr None, st1)
      | (Inr (Some yearData), st1) \<Rightarrow> (Inr (map_of (weeks yearData) (week wid)), st1))"

definition isInRange :: "int \<Rightarrow> int \<Rightarrow> WeekIdentifier \<Rightarrow> WeekIdentifier \<Rightarrow> bool" where
  "isInRange y weekNumber start end \<longleftrightarrow>
     (y > year start \<or> (y = year start \<and> weekNumber \<ge> week start)) \<and>
     (y < year end \<or> (y = year end \<and> weekNumber \<le> week end))"

text \<open>The comparator of the sort in \<^verbatim>\<open>getRange\<close>.\<close>

definition compareWeeks :: "WeeklyData \<Rightarrow> WeeklyData \<Rightarrow> int" where
  "compareWeeks a b =
     (if year (weekId a) \<noteq> year (weekId b) then year (weekId a) - year (weekId b)
      else week (weekId a) - week (weekId b))"

text \<open>
  The loop over \<^verbatim>\<open>dirHandle.values()\<close>, on the entries still to visit and the results
  collected so far. An error of \<^verbatim>\<open>readYearFile\<close> leaves the loop and the function.
\<close>

fun getRange_loop ::
    "fs \<Rightarrow> WeekIdentifier \<Rightarrow> WeekIdentifier \<Rightarrow> (string \<times> entry) list \<Rightarrow> WeeklyData list
      \<Rightarrow> WeeklyData list result \<times> fs" where
  "getRange_loop st start end [] results = (Inr results, st)"
| "getRange_loop st start end ((name, ent) # es) results =
     (if ent = SubDirectory \<or> \<not> endsWith name ''.json'' then getRange_loop st start end es results
      else case parseFileName name of
             None \<Rightarrow> getRange_loop st start end es results
           | Some y \<Rightarrow>
               (if y = 0 \<or> y < year start \<or> y > year end then getRange_loop st start end es results
                else case readYearFile st y of
                       (Inl e, st1) \<Rightarrow> (Inl e, st1)
                     | (Inr None, st1) \<Rightarrow> getRange_loop st1 start end es results
                     | (Inr (Some yearData), st1) \<Rightarrow>
                         getRange_loop st1 start end es
                           (results @ map snd (filter (\<lambda>p. isInRange y (fst p) start end) (weeks yearData)))))"

definition FileSystemLayer_getRange ::
    "fs \<Rightarrow> WeekIdentifier \<Rightarrow> WeekIdentifier \<Rightarrow> WeeklyData list result \<times> fs" where
  "FileSystemLayer_getRange st start end =
     (case getDirectoryHandle st of
        (Inl e, st1) \<Rightarrow> (Inl e, st1)
      | (Inr _, st1) \<Rightarrow>
          (case getRange_loop st1 start end (entries st1) [] of
             (Inl e, st2) \<Rightarrow> (Inl e, st2)
           | (Inr results, st2) \<Rightarrow> (Inr (array_sort compareWeeks results), st2)))"

definition FileSystemLayer_getByYear :: "fs \<Rightarrow> int \<Rightarrow> WeeklyData list result \<times> fs" where
  "FileSystemLayer_getByYear st y =
     (case readYearFile st y of
        (Inl e, st1) \<Rightarrow> (Inl e, st1)
      | (Inr None, st1) \<Rightarrow> (Inr [], st1)
      | (Inr (Some yearData), st1) \<Rightarrow>
          (Inr (array_sort (\<lambda>a b. week (weekId a) - week (weekId b)) (map snd (weeks yearData))), st1))"

definition FileSystemLayer_getWeeksWithData :: "fs \<Rightarrow> int \<Rightarrow> int set result \<times> fs" where
  "FileSystemLayer_getWeeksWithData st y =
     (case readYearFile st y of
        (Inl e, st1) \<Rightarrow> (Inl e, st1)
      | (Inr None, st1) \<Rightarrow> (Inr {}, st1)
      | (Inr (Some yearData), st1) \<Rightarrow> (Inr (set (map fst (weeks yearData))), st1))"

definition FileSystemLayer_delete :: "fs \<Rightarrow> WeekIdentifier \<Rightarrow> unit result \<times> fs" where
  "FileSystemLayer_delete st wid =
     (let y = year wid; weekNumber = week wid
      in case readYearFile st y of
           (Inl e, st1) \<Rightarrow> (Inl e, st1)
         | (Inr None, st1) \<Rightarrow> (Inr (), st1)
         | (Inr (Some yearData), st1) \<Rightarrow>
             (let yearData' = yearData\<lparr>weeks := obj_delete weekNumber (weeks yearData)\<rparr>
              in if weeks yearData' = []
                 then (case getDirectoryHandle st1 of
                         (Inl e, st2) \<Rightarrow> (Inl e, st2)
                       | (Inr _, st2) \<Rightarrow>
                           (case dir_removeEntry (getFileName y) (entries st2) of
                              Inl e \<Rightarrow> (if err_name e = ''NotFoundError'' then (Inr (), st2) else (Inl e, st2))
                            | Inr es \<Rightarrow> (Inr (), st2\<lparr>entries := es\<rparr>)))
                 else writeYearFile st1 y yearData'))"

section \<open>The layer contract (IWeeklyDataLayer.ts)\<close>

text \<open>
  A layer is an object: its descriptor, the state of its backend, and its six
  asynchronous methods, each a function of the backend's state that gives the settled
  result and the state the call leaves behind.
\<close>

record 's layer =
  layer_name :: string
  priority :: int
  canRead :: bool
  canWrite :: bool
  backend :: 's
  op_save :: "'s \<Rightarrow> SaveWeeklyDataInput \<Rightarrow> WeeklyData result \<times> 's"
  op_get :: "'s \<Rightarrow> WeekIdentifier \<Rightarrow> WeeklyData option result \<times> 's"
  op_getRange :: "'s \<Rightarrow> WeekIdentifier \<Rightarrow> WeekIdentifier \<Rightarrow> WeeklyData list result \<times> 's"
  op_getByYear :: "'s \<Rightarrow> int \<Rightarrow> WeeklyData list result \<times> 's"
  op_getWeeksWithData :: "'s \<Rightarrow> int \<Rightarrow> int set result \<times> 's"
  op_delete :: "'s \<Rightarrow> WeekIdentifier \<Rightarrow> unit result \<times> 's"

definition layer_save :: "'s layer \<Rightarrow> SaveWeeklyDataInput \<Rightarrow> WeeklyData result \<times> 's layer" where
  "layer_save l input = (case op_save l (backend l) input of (r, b) \<Rightarrow> (r, l\<lparr>backend := b\<rparr>))"

definition layer_get :: "'s layer \<Rightarrow> WeekIdentifier \<Rightarrow> WeeklyData option result \<times> 's layer" where
  "layer_get l wid = (case op_get l (backend l) wid of (r, b) \<Rightarrow> (r, l\<lparr>backend := b\<rparr>))"

definition layer_getRange ::
    "'s layer \<Rightarrow> WeekIdentifier \<Rightarrow> WeekIdentifier \<Rightarrow> WeeklyData list result \<times> 's layer" where
  "layer_getRange l start end =
     (case op_getRange l (backend l) start end of (r, b) \<Rightarrow> (r, l\<lparr>backend := b\<rparr>))"

definition layer_getByYear :: "'s layer \<Rightarrow> int \<Rightarrow> WeeklyData list result \<times> 's layer" where
  "layer_getByYear l y = (case op_getByYear l (backend l) y of (r, b) \<Rightarrow> (r, l\<lparr>backend := b\<rparr>))"

definition layer_getWeeksWithData :: "'s layer \<Rightarrow> int \<Rightarrow> int set result \<times> 's layer" where
  "layer_getWeeksWithData l y =
     (case op_getWeeksWithData l (backend l) y of (r, b) \<Rightarrow> (r, l\<lparr>backend := b\<rparr>))"

definition layer_delete :: "'s layer \<Rightarrow> WeekIdentifier \<Rightarrow> unit result \<times> 's layer" where
  "layer_delete l wid = (case op_delete l (backend l) wid of (r, b) \<Rightarrow> (r, l\<lparr>backend := b\<rparr>))"

text \<open>The two layer classes as objects of the contract, with the descriptors the classes declare.\<close>

definition IndexedDBLayer :: "idb \<Rightarrow> idb layer" where
  "IndexedDBLayer db =
     \<lparr>layer_name = ''indexeddb'', priority = 100, canRead = True, canWrite = True, backend = db,
      op_save = IndexedDBLayer_save, op_get = IndexedDBLayer_get,
      op_getRange = IndexedDBLayer_getRange, op_getByYear = IndexedDBLayer_getByYear,
      op_getWeeksWithData = IndexedDBLayer_getWeeksWithData, op_delete = IndexedDBLayer_delete\<rparr>"

definition FileSystemLayer :: "fs \<Rightarrow> fs layer" where
  "FileSystemLayer st =
     \<lparr>layer_name = ''filesystem'', priority = 50, canRead = True, canWrite = True, backend = st,
      op_save = FileSystemLayer_save, op_get = FileSystemLayer_get,
      op_getRange = FileSystemLayer_getRange, op_getByYear = FileSystemLayer_getByYear,
      op_getWeeksWithData = FileSystemLayer_getWeeksWithData, op_delete = FileSystemLayer_delete\<rparr>"

section \<open>The orchestrating repository (LayeredRepository.ts)\<close>

datatype ConflictResolution = local_wins | remote_wins | last_write_wins | manual

text \<open>
  The fields of the class and of its configuration. \<open>syncCoordinator\<close>, when present, is
  the outcome of \<^verbatim>\<open>syncItem\<close> for a key: \<open>None\<close> when its promise resolves, the error
  when it rejects. \<open>console\<close> collects the warnings the class writes.
\<close>

record 's LayeredRepository =
  primaryLayer :: "'s layer"
  secondaryLayers :: "'s layer list"
  syncCoordinator :: "(WeekIdentifier \<Rightarrow> js_error option) option"
  conflictResolution :: ConflictResolution
  syncWritesImmediately :: bool
  fallbackOnError :: bool
  console :: "string list"

definition console_warn :: "string \<Rightarrow> 's LayeredRepository \<Rightarrow> 's LayeredRepository" where
  "console_warn msg repo = repo\<lparr>console := console repo @ [msg]\<rparr>"

text \<open>\<^verbatim>\<open>SaveWeeklyDataInput\<close> built from every field of a record.\<close>

definition inputOf :: "WeeklyData \<Rightarrow> SaveWeeklyDataInput" where
  "inputOf d =
     \<lparr>in_weekId = weekId d, in_statusIcon = Some (statusIcon d),
      in_achievements = Some (achievements d), in_challenges = Some (challenges d)\<rparr>"

text \<open>
  \<^verbatim>\<open>Promise.allSettled(this.secondaryLayers.map((layer) => layer.save(input)))\<close>: every
  layer's \<^verbatim>\<open>save\<close> is called, each on its own backend, and the join never rejects.
\<close>

definition syncToSecondaryLayers :: "'s LayeredRepository \<Rightarrow> WeeklyData \<Rightarrow> 's LayeredRepository" where
  "syncToSecondaryLayers repo d =
     (if length (secondaryLayers repo) = 0 then repo
      else repo\<lparr>secondaryLayers := map (\<lambda>l. snd (layer_save l (inputOf d))) (secondaryLayers repo)\<rparr>)"

text \<open>
  \<^verbatim>\<open>save\<close>. Without \<^verbatim>\<open>syncWritesImmediately\<close> the fan-out is started and not awaited; the
  state returned is the one its calls leave behind once they have settled.
\<close>

definition LayeredRepository_save ::
    "'s LayeredRepository \<Rightarrow> SaveWeeklyDataInput \<Rightarrow> WeeklyData result \<times> 's LayeredRepository" where
  "LayeredRepository_save repo input =
     (case layer_save (primaryLayer repo) input of
        (Inl e, p) \<Rightarrow> (Inl e, repo\<lparr>primaryLayer := p\<rparr>)
      | (Inr r, p) \<Rightarrow>
          (let repo1 = repo\<lparr>primaryLayer := p\<rparr> in
           if syncWritesImmediately repo1 then (Inr r, syncToSecondaryLayers repo1 r)
           else if length (secondaryLayers repo1) > 0 then (Inr r, syncToSecondaryLayers repo1 r)
           else (Inr r, repo1)))"

definition LayeredRepository_delete ::
    "'s LayeredRepository \<Rightarrow> WeekIdentifier \<Rightarrow> unit result \<times> 's LayeredRepository" where
  "LayeredRepository_delete repo wid =
     (case layer_delete (primaryLayer repo) wid of
        (Inl e, p) \<Rightarrow> (Inl e, repo\<lparr>primaryLayer := p\<rparr>)
      | (Inr _, p) \<Rightarrow>
          (let repo1 = repo\<lparr>primaryLayer := p\<rparr> in
           if syncWritesImmediately repo1
           then (Inr (), repo1\<lparr>secondaryLayers := map (\<lambda>l. snd (layer_delete l wid)) (secondaryLayers repo1)\<rparr>)
           else if length (secondaryLayers repo1) > 0
           then (Inr (), repo1\<lparr>secondaryLayers := map (\<lambda>l. snd (layer_delete l wid)) (secondaryLayers repo1)\<rparr>)
           else (Inr (), repo1)))"

text \<open>
  \<^verbatim>\<open>[...this.secondaryLayers].sort((a, b) => b.priority - a.priority)\<close>. The sorted
  array holds the layer objects themselves; the model sorts their positions in
  \<open>secondaryLayers\<close>, so that a call on a sorted layer changes the layer of the repository.
\<close>

definition sortedLayers :: "'s LayeredRepository \<Rightarrow> nat list" where
  "sortedLayers repo =
     array_sort (\<lambda>a b. priority (secondaryLayers repo ! b) - priority (secondaryLayers repo ! a))
       [0 ..< length (secondaryLayers repo)]"

definition set_layer :: "nat \<Rightarrow> 's layer \<Rightarrow> 's LayeredRepository \<Rightarrow> 's LayeredRepository" where
  "set_layer i l repo = repo\<lparr>secondaryLayers := (secondaryLayers repo)[i := l]\<rparr>"

fun fallbackGet_loop ::
    "'s LayeredRepository \<Rightarrow> WeekIdentifier \<Rightarrow> nat list \<Rightarrow> WeeklyData option result \<times> 's LayeredRepository" where
  "fallbackGet_loop repo wid [] = (Inr None, repo)"
| "fallbackGet_loop repo wid (i # rest) =
     (case layer_get (secondaryLayers repo ! i) wid of
        (Inl err, l) \<Rightarrow>
          fallbackGet_loop
            (console_warn (''Fallback get failed for layer '' @ layer_name l @ '':'') (set_layer i l repo)) wid rest
      | (Inr None, l) \<Rightarrow> fallbackGet_loop (set_layer i l repo) wid rest
      | (Inr (Some r), l) \<Rightarrow>
          (let repo1 = set_layer i l repo in
           case layer_save (primaryLayer repo1) (inputOf r) of
             (Inl cacheErr, p) \<Rightarrow>
               (Inr (Some r),
                console_warn ''Failed to cache fallback data in primary layer:'' (repo1\<lparr>primaryLayer := p\<rparr>))
           | (Inr _, p) \<Rightarrow> (Inr (Some r), repo1\<lparr>primaryLayer := p\<rparr>)))"

definition fallbackGet ::
    "'s LayeredRepository \<Rightarrow> WeekIdentifier \<Rightarrow> WeeklyData option result \<times> 's LayeredRepository" where
  "fallbackGet repo wid = fallbackGet_loop repo wid (sortedLayers repo)"

fun fallbackGetRange_loop ::
    "'s LayeredRepository \<Rightarrow> WeekIdentifier \<Rightarrow> WeekIdentifier \<Rightarrow> nat list
      \<Rightarrow> WeeklyData list result \<times> 's LayeredRepository" where
  "fallbackGetRange_loop repo start end [] = (Inr [], repo)"
| "fallbackGetRange_loop repo start end (i # rest) =
     (case layer_getRange (secondaryLayers repo ! i) start end of
        (Inl err, l) \<Rightarrow>
          fallbackGetRange_loop
            (console_warn (''Fallback getRange failed for layer '' @ layer_name l @ '':'') (set_layer i l repo))
            start end rest
      | (Inr r, l) \<Rightarrow> (Inr r, set_layer i l repo))"

definition fallbackGetRange ::
    "'s LayeredRepository \<Rightarrow> WeekIdentifier \<Rightarrow> WeekIdentifier \<Rightarrow> WeeklyData list result \<times> 's LayeredRepository" where
  "fallbackGetRange repo start end = fallbackGetRange_loop repo start end (sortedLayers repo)"

fun fallbackGetByYear_loop ::
    "'s LayeredRepository \<Rightarrow> int \<Rightarrow> nat list \<Rightarrow> WeeklyData list result \<times> 's LayeredRepository" where
  "fallbackGetByYear_loop repo y [] = (Inr [], repo)"
| "fallbackGetByYear_loop repo y (i # rest) =
     (case layer_getByYear (secondaryLayers repo ! i) y of
        (Inl err, l) \<Rightarrow>
          fallbackGetByYear_loop
            (console_warn (''Fallback getByYear failed for layer '' @ layer_name l @ '':'') (set_layer i l repo))
            y rest
      | (Inr r, l) \<Rightarrow> (Inr r, set_layer i l repo))"

definition fallbackGetByYear ::
    "'s LayeredRepository \<Rightarrow> int \<Rightarrow> WeeklyData list result \<times> 's LayeredRepository" where
  "fallbackGetByYear repo y = fallbackGetByYear_loop repo y (sortedLayers repo)"

fun fallbackGetWeeksWithData_loop ::
    "'s LayeredRepository \<Rightarrow> int \<Rightarrow> nat list \<Rightarrow> int set result \<times> 's LayeredRepository" where
  "fallbackGetWeeksWithData_loop repo y [] = (Inr {}, repo)"
| "fallbackGetWeeksWithData_loop repo y (i # rest) =
     (case layer_getWeeksWithData (secondaryLayers repo ! i) y of
        (Inl err, l) \<Rightarrow>
          fallbackGetWeeksWithData_loop
            (console_warn (''Fallback getWeeksWithData failed for layer '' @ layer_name l @ '':'') (set_layer i l repo))
            y rest
      | (Inr r, l) \<Rightarrow> (Inr r, set_layer i l repo))"

definition fallbackGetWeeksWithData ::
    "'s LayeredRepository \<Rightarrow> int \<Rightarrow> int set result \<times> 's LayeredRepository" where
  "fallbackGetWeeksWithData repo y = fallbackGetWeeksWithData_loop repo y (sortedLayers repo)"

definition LayeredRepository_get ::
    "'s LayeredRepository \<Rightarrow> WeekIdentifier \<Rightarrow> WeeklyData option result \<times> 's LayeredRepository" where
  "LayeredRepository_get repo wid =
     (case layer_get (primaryLayer repo) wid of
        (Inr r, p) \<Rightarrow>
          (let repo1 = repo\<lparr>primaryLayer := p\<rparr> in
           case syncCoordinator repo1 of
             None \<Rightarrow> (Inr r, repo1)
           | Some syncItem \<Rightarrow>
               (case syncItem wid of
                  None \<Rightarrow> (Inr r, repo1)
                | Some err \<Rightarrow> (Inr r, console_warn ''Background sync failed for item:'' repo1)))
      | (Inl e, p) \<Rightarrow>
          (let repo1 = repo\<lparr>primaryLayer := p\<rparr> in
           if fallbackOnError repo1 then fallbackGet repo1 wid else (Inl e, repo1)))"

definition LayeredRepository_getRange ::
    "'s LayeredRepository \<Rightarrow> WeekIdentifier \<Rightarrow> WeekIdentifier \<Rightarrow> WeeklyData list result \<times> 's LayeredRepository" where
  "LayeredRepository_getRange repo start end =
     (case layer_getRange (primaryLayer repo) start end of
        (Inr r, p) \<Rightarrow> (Inr r, repo\<lparr>primaryLayer := p\<rparr>)
      | (Inl e, p) \<Rightarrow>
          (let repo1 = repo\<lparr>primaryLayer := p\<rparr> in
           if fallbackOnError repo1 then fallbackGetRange repo1 start end else (Inl e, repo1)))"

definition LayeredRepository_getByYear ::
    "'s LayeredRepository \<Rightarrow> int \<Rightarrow> WeeklyData list result \<times> 's LayeredRepository" where
  "LayeredRepository_getByYear repo y =
     (case layer_getByYear (primaryLayer repo) y of
        (Inr r, p) \<Rightarrow> (Inr r, repo\<lparr>primaryLayer := p\<rparr>)
      | (Inl e, p) \<Rightarrow>
          (let repo1 = repo\<lparr>primaryLayer := p\<rparr> in
           if fallbackOnError repo1 then fallbackGetByYear repo1 y else (Inl e, repo1)))"

definition LayeredRepository_getWeeksWithData ::
    "'s LayeredRepository \<Rightarrow> int \<Rightarrow> int set result \<times> 's LayeredRepository" where
  "LayeredRepository_getWeeksWithData repo y =
     (case layer_getWeeksWithData (primaryLayer repo) y of
        (Inr r, p) \<Rightarrow> (Inr r, repo\<lparr>primaryLayer := p\<rparr>)
      | (Inl e, p) \<Rightarrow>
          (let repo1 = repo\<lparr>primaryLayer := p\<rparr> in
           if fallbackOnError repo1 then fallbackGetWeeksWithData repo1 y else (Inl e, repo1)))"

section \<open>The factory (RepositoryFactory.ts)\<close>

text \<open>
  A directory handle is an object compared by identity; a number stands for it, and
  \<open>None\<close> for \<^verbatim>\<open>undefined\<close>.
\<close>

record RepositoryConfig =
  enableFileSystem :: bool
  cfg_directoryHandle :: "nat option"
  cfg_syncWritesImmediately :: "bool option"
  cfg_fallbackOnError :: "bool option"

text \<open>
  What \<^verbatim>\<open>createRepository\<close> builds: the constructor calls it makes and the configuration
  it hands to \<^verbatim>\<open>new LayeredRepository\<close>. \<open>object_id\<close> tells one created repository from
  another.
\<close>

datatype layer_object = new_IndexedDBLayer | new_FileSystemLayer "nat option"

record repository_object =
  object_id :: nat
  obj_primaryLayer :: layer_object
  obj_secondaryLayers :: "layer_object list"
  obj_conflictResolution :: ConflictResolution
  obj_syncWritesImmediately :: bool
  obj_fallbackOnError :: bool

text \<open>The static fields of the class; \<open>created\<close> counts the repositories built so far.\<close>

record RepositoryFactory =
  repoInstance :: "repository_object option"
  currentConfig :: "RepositoryConfig option"
  created :: nat

definition createRepository :: "nat \<Rightarrow> RepositoryConfig \<Rightarrow> repository_object" where
  "createRepository n config =
     \<lparr>object_id = n,
      obj_primaryLayer = new_IndexedDBLayer,
      obj_secondaryLayers =
        (if enableFileSystem config then [new_FileSystemLayer (cfg_directoryHandle config)] else []),
      obj_conflictResolution = last_write_wins,
      obj_syncWritesImmediately = (case cfg_syncWritesImmediately config of Some b \<Rightarrow> b | None \<Rightarrow> False),
      obj_fallbackOnError = (case cfg_fallbackOnError config of Some b \<Rightarrow> b | None \<Rightarrow> True)\<rparr>"

definition needsReconfiguration :: "RepositoryFactory \<Rightarrow> RepositoryConfig \<Rightarrow> bool" where
  "needsReconfiguration f config \<longleftrightarrow>
     (case currentConfig f of
        None \<Rightarrow> True
      | Some c \<Rightarrow> enableFileSystem c \<noteq> enableFileSystem config
                  \<or> cfg_directoryHandle c \<noteq> cfg_directoryHandle config)"

definition configure :: "RepositoryFactory \<Rightarrow> RepositoryConfig \<Rightarrow> RepositoryFactory" where
  "configure f config =
     (if needsReconfiguration f config
      then f\<lparr>currentConfig := Some config,
             repoInstance := Some (createRepository (created f) config),
             created := Suc (created f)\<rparr>
      else f)"

definition getInstance :: "RepositoryFactory \<Rightarrow> repository_object \<times> RepositoryFactory" where
  "getInstance f =
     (case repoInstance f of
        Some r \<Rightarrow> (r, f)
      | None \<Rightarrow>
          (let config = \<lparr>enableFileSystem = False, cfg_directoryHandle = None,
                         cfg_syncWritesImmediately = None, cfg_fallbackOnError = None\<rparr>;
               r = createRepository (created f) config
           in (r, f\<lparr>repoInstance := Some r, currentConfig := Some config, created := Suc (created f)\<rparr>)))"

definition reset :: "RepositoryFactory \<Rightarrow> RepositoryFactory" where
  "reset f = f\<lparr>repoInstance := None, currentConfig := None\<rparr>"

section \<open>Reference notions for the properties\<close>

text \<open>
  The secondary layers in the order the fallback visits them, and the outcome of trying
  a list of settled results in order: the first one that did not fail, or the first
  record found.
\<close>

definition layersByPriority :: "'s LayeredRepository \<Rightarrow> 's layer list" where
  "layersByPriority repo = map (\<lambda>i. secondaryLayers repo ! i) (sortedLayers repo)"

fun first_success :: "'a \<Rightarrow> 'a result list \<Rightarrow> 'a" where
  "first_success dflt [] = dflt"
| "first_success dflt (Inl e # rs) = first_success dflt rs"
| "first_success dflt (Inr v # rs) = v"

fun first_found :: "'a option result list \<Rightarrow> 'a option" where
  "first_found [] = None"
| "first_found (Inr (Some v) # rs) = Some v"
| "first_found (r # rs) = first_found rs"

text \<open>The order of week identifiers: year first, then week.\<close>

definition week_le :: "WeekIdentifier \<Rightarrow> WeekIdentifier \<Rightarrow> bool" where
  "week_le a b \<longleftrightarrow> year a < year b \<or> (year a = year b \<and> week a \<le> week b)"

text \<open>
  What a saved record must be, given the input and the record the layer held before:
  a supplied field is the supplied value, a field left out is the prior record's field,
  or the documented default when there was no prior record.
\<close>

definition merged :: "SaveWeeklyDataInput \<Rightarrow> WeeklyData option \<Rightarrow> WeeklyData \<Rightarrow> bool" where
  "merged input prior r \<longleftrightarrow>
     weekId r = in_weekId input \<and>
     statusIcon r =
       (case in_statusIcon input of Some v \<Rightarrow> v
        | None \<Rightarrow> (case prior of Some p \<Rightarrow> statusIcon p | None \<Rightarrow> [CHR 0xE2, CHR 0x9D, CHR 0x94])) \<and>
     achievements r =
       (case in_achievements input of Some v \<Rightarrow> v
        | None \<Rightarrow> (case prior of Some p \<Rightarrow> achievements p | None \<Rightarrow> [])) \<and>
     challenges r =
       (case in_challenges input of Some v \<Rightarrow> v
        | None \<Rightarrow> (case prior of Some p \<Rightarrow> challenges p | None \<Rightarrow> []))"

subsection \<open>Example states\<close>

definition healthy_db :: "WeeklyData list \<Rightarrow> idb" where
  "healthy_db recs = \<lparr>open_error = None, request_error = None, objectStore = recs\<rparr>"

definition failing_db :: idb where
  "failing_db = \<lparr>open_error = None, request_error = Some ''QuotaExceededError'', objectStore = []\<rparr>"

definition example_repository :: "idb layer \<Rightarrow> idb layer list \<Rightarrow> bool \<Rightarrow> bool \<Rightarrow> idb LayeredRepository" where
  "example_repository p ls immediately fallback =
     \<lparr>primaryLayer = p, secondaryLayers = ls, syncCoordinator = None,
      conflictResolution = last_write_wins, syncWritesImmediately = immediately,
      fallbackOnError = fallback, console = []\<rparr>"

definition week_2024_1 :: WeeklyData where
  "week_2024_1 = \<lparr>weekId = \<lparr>year = 2024, week = 1\<rparr>, statusIcon = ''ok'', achievements = ''A'', challenges = []\<rparr>"

definition week_2023_52 :: WeeklyData where
  "week_2023_52 = \<lparr>weekId = \<lparr>year = 2023, week = 52\<rparr>, statusIcon = ''ok'', achievements = [], challenges = ''C''\<rparr>"

definition example_config :: "bool option \<Rightarrow> bool option \<Rightarrow> RepositoryConfig" where
  "example_config immediately fallback =
     \<lparr>enableFileSystem = True, cfg_directoryHandle = Some 7,
      cfg_syncWritesImmediately = immediately, cfg_fallbackOnError = fallback\<rparr>"

definition example_factory :: RepositoryFactory where
  "example_factory = configure \<lparr>repoInstance = None, currentConfig = None, created = 0\<rparr> (example_config None None)"

definition with_priority :: "int \<Rightarrow> idb layer \<Rightarrow> idb layer" where
  "with_priority n l = l\<lparr>priority := n\<rparr>"

text \<open>
  A repository whose primary layer fails every request, with three secondary layers:
  priority 40 holding week 52 of 2023, priority 60 failing, priority 50 holding week 1 of 2024.
\<close>

definition fallback_repository :: "bool \<Rightarrow> idb LayeredRepository" where
  "fallback_repository fallback =
     example_repository (IndexedDBLayer failing_db)
       [with_priority 40 (IndexedDBLayer (healthy_db [week_2023_52])),
        with_priority 60 (IndexedDBLayer failing_db),
        with_priority 50 (IndexedDBLayer (healthy_db [week_2024_1]))] False fallback"

text \<open>
  A repository whose primary layer fails every request, with an empty secondary layer of
  priority 50 and a secondary layer of priority 40 holding week 1 of 2024.
\<close>

definition empty_first_repository :: "idb LayeredRepository" where
  "empty_first_repository =
     example_repository (IndexedDBLayer failing_db)
       [with_priority 50 (IndexedDBLayer (healthy_db [])),
        with_priority 40 (IndexedDBLayer (healthy_db [week_2024_1]))] False True"

text \<open>
  A repository whose primary layer fails every request, with one working secondary layer
  that holds week 1 of 2024.
\<close>

definition single_secondary_repository :: "bool \<Rightarrow> idb LayeredRepository" where
  "single_secondary_repository fallback =
     example_repository (IndexedDBLayer failing_db)
       [with_priority 50 (IndexedDBLayer (healthy_db [week_2024_1]))] False fallback"

text \<open>A layer constructed with a directory handle whose permission is granted.\<close>

definition granted_directory :: "(string \<times> entry) list \<Rightarrow> fs" where
  "granted_directory es =
     \<lparr>directoryHandle = True, initPromise = None, persistedHandle = False, showDirectoryPicker = None,
      queryPermission = granted, requestPermission = granted, entries = es\<rparr>"

text \<open>
  The scenario of the specification: week 15 of 2024 created with a status and
  achievements, then updated with challenges.
\<close>

definition week_2024_15 :: "string \<Rightarrow> WeeklyData" where
  "week_2024_15 c = \<lparr>weekId = \<lparr>year = 2024, week = 15\<rparr>, statusIcon = ''ok'', achievements = ''A'', challenges = c\<rparr>"

definition update_challenges :: SaveWeeklyDataInput where
  "update_challenges =
     \<lparr>in_weekId = \<lparr>year = 2024, week = 15\<rparr>, in_statusIcon = None, in_achievements = None,
      in_challenges = Some ''C''\<rparr>"

definition create_empty :: SaveWeeklyDataInput where
  "create_empty =
     \<lparr>in_weekId = \<lparr>year = 2024, week = 15\<rparr>, in_statusIcon = None, in_achievements = None,
      in_challenges = None\<rparr>"

definition year_file :: "int \<Rightarrow> (int \<times> WeeklyData) list \<Rightarrow> string \<times> entry" where
  "year_file y ws = (getFileName y, JournalFile \<lparr>yj_year = y, weeks = ws\<rparr>)"


section \<open>Properties\<close>

lemmas example_defs =
  healthy_db_def failing_db_def example_repository_def week_2024_1_def week_2023_52_def

lemmas idb_layer_defs =
  IndexedDBLayer_def IndexedDBLayer_save_def IndexedDBLayer_get_def IndexedDBLayer_delete_def
  IndexedDBLayer_getRange_def IndexedDBLayer_getByYear_def IndexedDBLayer_getWeeksWithData_def
  executeTransaction_def initDB_def store_get_def store_put_def store_delete_def store_getAll_def
  yearIndex_getAllKeys_def IDBKeyRange_bound_def idb_cmp_def array_sort_def
  buildDataToSave_def coalesce_def toPlainWeekId_def keyOf_def new_Error_def
  DEFAULT_achievements_def DEFAULT_challenges_def

lemmas layer_call_defs =
  layer_save_def layer_get_def layer_getRange_def layer_getByYear_def
  layer_getWeeksWithData_def layer_delete_def inputOf_def

subsection \<open>The write path of the repository\<close>

text \<open>
  C6. Whenever the primary layer's \<^verbatim>\<open>save\<close> succeeds, the repository's \<^verbatim>\<open>save\<close> succeeds
  and returns exactly the record the primary layer resolved, whatever the secondary
  layers do and whatever \<^verbatim>\<open>syncWritesImmediately\<close> says; with \<^verbatim>\<open>syncWritesImmediately\<close>
  every secondary layer's \<^verbatim>\<open>save\<close> has run on the resolved record, so the failure of one
  does not keep another from being attempted. The same holds for \<^verbatim>\<open>delete\<close>.
\<close>

theorem save_and_delete_ignore_secondary_failures:
  "(fst (layer_save (primaryLayer repo) input) = Inr r \<longrightarrow>
      fst (LayeredRepository_save repo input) = Inr r \<and>
      (syncWritesImmediately repo \<longrightarrow>
         secondaryLayers (snd (LayeredRepository_save repo input))
           = map (\<lambda>l. snd (layer_save l (inputOf r))) (secondaryLayers repo))) \<and>
   (fst (layer_delete (primaryLayer repo) wid) = Inr u \<longrightarrow>
      fst (LayeredRepository_delete repo wid) = Inr () \<and>
      (syncWritesImmediately repo \<longrightarrow>
         secondaryLayers (snd (LayeredRepository_delete repo wid))
           = map (\<lambda>l. snd (layer_delete l wid)) (secondaryLayers repo)))"
  by (auto simp: LayeredRepository_save_def LayeredRepository_delete_def syncToSecondaryLayers_def
        Let_def split: prod.splits sum.splits)

text \<open>
  The theorem at a repository whose first secondary layer fails every request: the save
  returns the primary's record, the failing layer is left as it was, and the layer after
  it holds the record.
\<close>

theorem save_and_delete_ignore_secondary_failures_witness:
  "fst (layer_save (IndexedDBLayer (healthy_db [])) (inputOf week_2024_1)) = Inr week_2024_1 \<and>
   fst (layer_save (IndexedDBLayer failing_db) (inputOf week_2024_1))
     = Inl (JsError ''Error'' ''IndexedDB transaction failed: QuotaExceededError'') \<and>
   fst (LayeredRepository_save
          (example_repository (IndexedDBLayer (healthy_db []))
             [IndexedDBLayer failing_db, IndexedDBLayer (healthy_db [])] True False)
          (inputOf week_2024_1)) = Inr week_2024_1 \<and>
   secondaryLayers (snd (LayeredRepository_save
          (example_repository (IndexedDBLayer (healthy_db []))
             [IndexedDBLayer failing_db, IndexedDBLayer (healthy_db [])] True False)
          (inputOf week_2024_1)))
     = [IndexedDBLayer failing_db, IndexedDBLayer (healthy_db [week_2024_1])] \<and>
   fst (layer_delete (IndexedDBLayer (healthy_db [week_2024_1])) \<lparr>year = 2024, week = 1\<rparr>) = Inr () \<and>
   fst (LayeredRepository_delete
          (example_repository (IndexedDBLayer (healthy_db [week_2024_1]))
             [IndexedDBLayer failing_db, IndexedDBLayer (healthy_db [week_2024_1])] True False)
          \<lparr>year = 2024, week = 1\<rparr>) = Inr () \<and>
   secondaryLayers (snd (LayeredRepository_delete
          (example_repository (IndexedDBLayer (healthy_db [week_2024_1]))
             [IndexedDBLayer failing_db, IndexedDBLayer (healthy_db [week_2024_1])] True False)
          \<lparr>year = 2024, week = 1\<rparr>))
     = [IndexedDBLayer failing_db, IndexedDBLayer (healthy_db [])]"
proof -
  have s: "fst (layer_save (IndexedDBLayer (healthy_db [])) (inputOf week_2024_1)) = Inr week_2024_1"
    by (simp add: example_defs idb_layer_defs layer_call_defs Let_def)
  have d: "fst (layer_delete (IndexedDBLayer (healthy_db [week_2024_1])) \<lparr>year = 2024, week = 1\<rparr>) = Inr ()"
    by (simp add: example_defs idb_layer_defs layer_call_defs Let_def)
  have f: "fst (layer_save (IndexedDBLayer failing_db) (inputOf week_2024_1))
     = Inl (JsError ''Error'' ''IndexedDB transaction failed: QuotaExceededError'')"
    by (simp add: example_defs idb_layer_defs layer_call_defs Let_def)
  have l1: "snd (layer_save (IndexedDBLayer failing_db) (inputOf week_2024_1)) = IndexedDBLayer failing_db"
    by (simp add: example_defs idb_layer_defs layer_call_defs Let_def)
  have l2: "snd (layer_save (IndexedDBLayer (healthy_db [])) (inputOf week_2024_1))
      = IndexedDBLayer (healthy_db [week_2024_1])"
    by (simp add: example_defs idb_layer_defs layer_call_defs Let_def)
  have l3: "snd (layer_delete (IndexedDBLayer failing_db) \<lparr>year = 2024, week = 1\<rparr>) = IndexedDBLayer failing_db"
    by (simp add: example_defs idb_layer_defs layer_call_defs Let_def)
  have l4: "snd (layer_delete (IndexedDBLayer (healthy_db [week_2024_1])) \<lparr>year = 2024, week = 1\<rparr>)
      = IndexedDBLayer (healthy_db [])"
    by (simp add: example_defs idb_layer_defs layer_call_defs Let_def)
  have p: "primaryLayer (example_repository a b c e) = a" "secondaryLayers (example_repository a b c e) = b"
    "syncWritesImmediately (example_repository a b c e) = c" for a b c e
    by (simp_all add: example_repository_def)
  note t1 = save_and_delete_ignore_secondary_failures
    [of "example_repository (IndexedDBLayer (healthy_db []))
           [IndexedDBLayer failing_db, IndexedDBLayer (healthy_db [])] True False"
        "inputOf week_2024_1" week_2024_1, THEN conjunct1]
  note t2 = save_and_delete_ignore_secondary_failures
    [of "example_repository (IndexedDBLayer (healthy_db [week_2024_1]))
           [IndexedDBLayer failing_db, IndexedDBLayer (healthy_db [week_2024_1])] True False"
        _ _ "\<lparr>year = 2024, week = 1\<rparr>" "()", THEN conjunct2]
  from t1 s have a: "fst (LayeredRepository_save
          (example_repository (IndexedDBLayer (healthy_db []))
             [IndexedDBLayer failing_db, IndexedDBLayer (healthy_db [])] True False)
          (inputOf week_2024_1)) = Inr week_2024_1"
      and b: "secondaryLayers (snd (LayeredRepository_save
          (example_repository (IndexedDBLayer (healthy_db []))
             [IndexedDBLayer failing_db, IndexedDBLayer (healthy_db [])] True False)
          (inputOf week_2024_1)))
        = [IndexedDBLayer failing_db, IndexedDBLayer (healthy_db [week_2024_1])]"
    by (simp_all add: p l1 l2)
  from t2 d have c: "fst (LayeredRepository_delete
          (example_repository (IndexedDBLayer (healthy_db [week_2024_1]))
             [IndexedDBLayer failing_db, IndexedDBLayer (healthy_db [week_2024_1])] True False)
          \<lparr>year = 2024, week = 1\<rparr>) = Inr ()"
      and e: "secondaryLayers (snd (LayeredRepository_delete
          (example_repository (IndexedDBLayer (healthy_db [week_2024_1]))
             [IndexedDBLayer failing_db, IndexedDBLayer (healthy_db [week_2024_1])] True False)
          \<lparr>year = 2024, week = 1\<rparr>))
        = [IndexedDBLayer failing_db, IndexedDBLayer (healthy_db [])]"
    by (simp_all add: p l3 l4)
  from s f a b d c e show ?thesis by blast
qed

subsection \<open>The factory\<close>

text \<open>
  C10. \<^verbatim>\<open>RepositoryFactory.configure\<close> replaces the repository only when there is no
  current configuration or \<^verbatim>\<open>enableFileSystem\<close> or the directory handle differ from it. Called
  with the same \<^verbatim>\<open>enableFileSystem\<close> and the same handle it leaves the instance and the
  stored configuration as they are, whatever \<^verbatim>\<open>syncWritesImmediately\<close> and
  \<^verbatim>\<open>fallbackOnError\<close> it is given: the new flag values are ignored.
\<close>

theorem configure_ignores_flag_changes:
  "(\<forall>c. currentConfig f = Some c \<and> enableFileSystem c = enableFileSystem config
        \<and> cfg_directoryHandle c = cfg_directoryHandle config \<longrightarrow> configure f config = f)
   \<and> (repoInstance (configure f config) \<noteq> repoInstance f \<longrightarrow>
        currentConfig f = None \<or>
        (\<exists>c. currentConfig f = Some c \<and>
          (enableFileSystem c \<noteq> enableFileSystem config
           \<or> cfg_directoryHandle c \<noteq> cfg_directoryHandle config)))"
  by (auto simp: configure_def needsReconfiguration_def split: option.splits)


text \<open>
  The theorem at a factory configured with a handle and no flags. A second call with the
  same handle and both flags set changes nothing: the instance still has the default
  flags. A call with another handle replaces the instance.
\<close>

theorem configure_ignores_flag_changes_witness:
  "currentConfig example_factory = Some (example_config None None) \<and>
   enableFileSystem (example_config None None) = enableFileSystem (example_config (Some True) (Some False)) \<and>
   cfg_directoryHandle (example_config None None) = cfg_directoryHandle (example_config (Some True) (Some False)) \<and>
   configure example_factory (example_config (Some True) (Some False)) = example_factory \<and>
   map_option obj_syncWritesImmediately
     (repoInstance (configure example_factory (example_config (Some True) (Some False)))) = Some False \<and>
   map_option obj_fallbackOnError
     (repoInstance (configure example_factory (example_config (Some True) (Some False)))) = Some True \<and>
   repoInstance (configure example_factory ((example_config None None)\<lparr>cfg_directoryHandle := Some 8\<rparr>))
     \<noteq> repoInstance example_factory \<and>
   cfg_directoryHandle (example_config None None)
     \<noteq> cfg_directoryHandle ((example_config None None)\<lparr>cfg_directoryHandle := Some 8\<rparr>)"
proof -
  have c: "currentConfig example_factory = Some (example_config None None)"
    by (simp add: example_factory_def configure_def needsReconfiguration_def)
  have e: "enableFileSystem (example_config None None) = enableFileSystem (example_config (Some True) (Some False))"
    and h: "cfg_directoryHandle (example_config None None) = cfg_directoryHandle (example_config (Some True) (Some False))"
    by (simp_all add: example_config_def)
  from configure_ignores_flag_changes [of example_factory "example_config (Some True) (Some False)"] c e h
  have same: "configure example_factory (example_config (Some True) (Some False)) = example_factory"
    by blast
  have i: "repoInstance example_factory = Some (createRepository 0 (example_config None None))"
    by (simp add: example_factory_def configure_def needsReconfiguration_def)
  have flags: "obj_syncWritesImmediately (createRepository 0 (example_config None None)) = False"
    "obj_fallbackOnError (createRepository 0 (example_config None None)) = True"
    by (simp_all add: createRepository_def example_config_def)
  have differ: "repoInstance (configure example_factory ((example_config None None)\<lparr>cfg_directoryHandle := Some 8\<rparr>))
     \<noteq> repoInstance example_factory"
    by (simp add: example_factory_def configure_def needsReconfiguration_def createRepository_def example_config_def)
  from configure_ignores_flag_changes [of example_factory "(example_config None None)\<lparr>cfg_directoryHandle := Some 8\<rparr>"]
    differ c
  have "cfg_directoryHandle (example_config None None)
     \<noteq> cfg_directoryHandle ((example_config None None)\<lparr>cfg_directoryHandle := Some 8\<rparr>)"
    by (auto simp: example_config_def)
  with c e h same i flags differ show ?thesis by simp
qed


subsection \<open>Sorting with a comparator\<close>

lemma mset_insert_by: "mset (insert_by cmp x xs) = add_mset x (mset xs)"
  by (induction xs) auto

lemma mset_array_sort: "mset (array_sort cmp xs) = mset xs"
  unfolding array_sort_def by (induction xs) (auto simp: mset_insert_by)


lemma distinct_array_sort: "distinct (array_sort cmp xs) = distinct xs"
  by (metis mset_array_sort distinct_count_atmost_1 set_mset_mset count_mset)

lemma set_insert_by: "set (insert_by cmp x xs) = insert x (set xs)"
  by (induction xs) auto

lemma sorted_wrt_insert_by:
  assumes le: "\<And>a b. cmp a b \<le> 0 \<Longrightarrow> le a b"
    and tot: "\<And>a b. \<not> cmp a b \<le> 0 \<Longrightarrow> le b a"
    and trans: "\<And>a b c. le a b \<Longrightarrow> le b c \<Longrightarrow> le a c"
  shows "sorted_wrt le xs \<Longrightarrow> sorted_wrt le (insert_by cmp x xs)"
proof (induction xs)
  case Nil
  then show ?case by simp
next
  case (Cons y ys)
  show ?case
  proof (cases "cmp x y \<le> 0")
    case True
    then have "le x y" by (rule le)
    with Cons.prems have "\<forall>z\<in>set ys. le x z" by (auto intro: trans)
    with True \<open>le x y\<close> Cons.prems show ?thesis by simp
  next
    case False
    then have "le y x" by (rule tot)
    with False Cons show ?thesis by (auto simp: set_insert_by)
  qed
qed

lemma sorted_wrt_array_sort:
  assumes "\<And>a b. cmp a b \<le> 0 \<Longrightarrow> le a b"
    and "\<And>a b. \<not> cmp a b \<le> 0 \<Longrightarrow> le b a"
    and "\<And>a b c. le a b \<Longrightarrow> le b c \<Longrightarrow> le a c"
  shows "sorted_wrt le (array_sort cmp xs)"
  unfolding array_sort_def
  by (induction xs) (auto intro: sorted_wrt_insert_by [where cmp = cmp and le = le] assms)

subsection \<open>The order of the fallback\<close>

lemma layersByPriority_sorted:
  "sorted_wrt (\<lambda>a b. priority a \<ge> priority b) (layersByPriority repo)"
  unfolding layersByPriority_def sortedLayers_def sorted_wrt_map
  by (rule sorted_wrt_array_sort) auto

lemma layersByPriority_mset: "mset (layersByPriority repo) = mset (secondaryLayers repo)"
proof -
  have "mset (layersByPriority repo)
      = image_mset (\<lambda>i. secondaryLayers repo ! i) (mset [0 ..< length (secondaryLayers repo)])"
    unfolding layersByPriority_def sortedLayers_def by (simp only: mset_map mset_array_sort)
  also have "\<dots> = mset (map (\<lambda>i. secondaryLayers repo ! i) [0 ..< length (secondaryLayers repo)])"
    by (simp only: mset_map)
  also have "\<dots> = mset (secondaryLayers repo)" by (simp only: map_nth)
  finally show ?thesis .
qed

lemma layersByPriority_set: "set (layersByPriority repo) = set (secondaryLayers repo)"
  by (metis layersByPriority_mset set_mset_mset)

lemma sortedLayers_distinct: "distinct (sortedLayers repo)"
  by (simp add: sortedLayers_def distinct_array_sort)

lemma sortedLayers_primaryLayer [simp]: "sortedLayers (repo\<lparr>primaryLayer := p\<rparr>) = sortedLayers repo"
  by (simp add: sortedLayers_def)

lemma layersByPriority_primaryLayer [simp]:
  "layersByPriority (repo\<lparr>primaryLayer := p\<rparr>) = layersByPriority repo"
  by (simp add: layersByPriority_def)

lemma secondaryLayers_set_layer [simp]:
  "secondaryLayers (set_layer i l repo) = (secondaryLayers repo)[i := l]"
  by (simp add: set_layer_def)

lemma secondaryLayers_console_warn [simp]:
  "secondaryLayers (console_warn m repo) = secondaryLayers repo"
  by (simp add: console_warn_def)

lemma fallbackGet_loop_result:
  "distinct idxs \<Longrightarrow> \<forall>k\<in>set idxs. secondaryLayers repo ! k = L ! k \<Longrightarrow>
   fst (fallbackGet_loop repo wid idxs)
     = Inr (first_found (map (\<lambda>i. fst (layer_get (L ! i) wid)) idxs))"
proof (induction idxs arbitrary: repo)
  case Nil
  then show ?case by simp
next
  case (Cons i rest)
  have ne: "\<forall>k\<in>set rest. k \<noteq> i" using Cons.prems by auto
  have step: "fst (fallbackGet_loop repo' wid rest)
      = Inr (first_found (map (\<lambda>i. fst (layer_get (L ! i) wid)) rest))"
    if "secondaryLayers repo' = (secondaryLayers repo)[i := l]" for repo' l
    using Cons.prems ne that by (intro Cons.IH) auto
  obtain r l where call: "layer_get (L ! i) wid = (r, l)" by (cases "layer_get (L ! i) wid")
  show ?case
  proof (cases r)
    case (Inl err)
    with call Cons.prems step [of "console_warn (''Fallback get failed for layer '' @ layer_name l @ '':'') (set_layer i l repo)" l]
    show ?thesis by simp
  next
    case (Inr found)
    show ?thesis
    proof (cases found)
      case None
      with Inr call Cons.prems step [of "set_layer i l repo" l] show ?thesis by simp
    next
      case (Some v)
      with Inr call Cons.prems show ?thesis
        by (simp add: Let_def split: prod.splits sum.splits)
    qed
  qed
qed

lemma fallbackGetRange_loop_result:
  "distinct idxs \<Longrightarrow> \<forall>k\<in>set idxs. secondaryLayers repo ! k = L ! k \<Longrightarrow>
   fst (fallbackGetRange_loop repo s t idxs)
     = Inr (first_success [] (map (\<lambda>i. fst (layer_getRange (L ! i) s t)) idxs))"
proof (induction idxs arbitrary: repo)
  case Nil
  then show ?case by simp
next
  case (Cons i rest)
  have ne: "\<forall>k\<in>set rest. k \<noteq> i" using Cons.prems by auto
  obtain r l where call: "layer_getRange (L ! i) s t = (r, l)" by (cases "layer_getRange (L ! i) s t")
  show ?case
  proof (cases r)
    case (Inl err)
    have "fst (fallbackGetRange_loop
                (console_warn (''Fallback getRange failed for layer '' @ layer_name l @ '':'') (set_layer i l repo)) s t rest)
          = Inr (first_success [] (map (\<lambda>i. fst (layer_getRange (L ! i) s t)) rest))"
      using Cons.prems ne by (intro Cons.IH) auto
    with call Inl Cons.prems show ?thesis by simp
  next
    case (Inr v)
    with call Cons.prems show ?thesis by simp
  qed
qed

lemma fallbackGetByYear_loop_result:
  "distinct idxs \<Longrightarrow> \<forall>k\<in>set idxs. secondaryLayers repo ! k = L ! k \<Longrightarrow>
   fst (fallbackGetByYear_loop repo y idxs)
     = Inr (first_success [] (map (\<lambda>i. fst (layer_getByYear (L ! i) y)) idxs))"
proof (induction idxs arbitrary: repo)
  case Nil
  then show ?case by simp
next
  case (Cons i rest)
  have ne: "\<forall>k\<in>set rest. k \<noteq> i" using Cons.prems by auto
  obtain r l where call: "layer_getByYear (L ! i) y = (r, l)" by (cases "layer_getByYear (L ! i) y")
  show ?case
  proof (cases r)
    case (Inl err)
    have "fst (fallbackGetByYear_loop
                (console_warn (''Fallback getByYear failed for layer '' @ layer_name l @ '':'') (set_layer i l repo)) y rest)
          = Inr (first_success [] (map (\<lambda>i. fst (layer_getByYear (L ! i) y)) rest))"
      using Cons.prems ne by (intro Cons.IH) auto
    with call Inl Cons.prems show ?thesis by simp
  next
    case (Inr v)
    with call Cons.prems show ?thesis by simp
  qed
qed

lemma fallbackGetWeeksWithData_loop_result:
  "distinct idxs \<Longrightarrow> \<forall>k\<in>set idxs. secondaryLayers repo ! k = L ! k \<Longrightarrow>
   fst (fallbackGetWeeksWithData_loop repo y idxs)
     = Inr (first_success {} (map (\<lambda>i. fst (layer_getWeeksWithData (L ! i) y)) idxs))"
proof (induction idxs arbitrary: repo)
  case Nil
  then show ?case by simp
next
  case (Cons i rest)
  have ne: "\<forall>k\<in>set rest. k \<noteq> i" using Cons.prems by auto
  obtain r l where call: "layer_getWeeksWithData (L ! i) y = (r, l)"
    by (cases "layer_getWeeksWithData (L ! i) y")
  show ?case
  proof (cases r)
    case (Inl err)
    have "fst (fallbackGetWeeksWithData_loop
                (console_warn (''Fallback getWeeksWithData failed for layer '' @ layer_name l @ '':'') (set_layer i l repo)) y rest)
          = Inr (first_success {} (map (\<lambda>i. fst (layer_getWeeksWithData (L ! i) y)) rest))"
      using Cons.prems ne by (intro Cons.IH) auto
    with call Inl Cons.prems show ?thesis by simp
  next
    case (Inr v)
    with call Cons.prems show ?thesis by simp
  qed
qed

lemma fallbackGet_result:
  "fst (fallbackGet repo wid) = Inr (first_found (map (\<lambda>l. fst (layer_get l wid)) (layersByPriority repo)))"
  unfolding fallbackGet_def layersByPriority_def
  by (simp add: fallbackGet_loop_result [where L = "secondaryLayers repo"] sortedLayers_distinct comp_def)

lemma fallbackGetRange_result:
  "fst (fallbackGetRange repo s t)
     = Inr (first_success [] (map (\<lambda>l. fst (layer_getRange l s t)) (layersByPriority repo)))"
  unfolding fallbackGetRange_def layersByPriority_def
  by (simp add: fallbackGetRange_loop_result [where L = "secondaryLayers repo"] sortedLayers_distinct comp_def)

lemma fallbackGetByYear_result:
  "fst (fallbackGetByYear repo y)
     = Inr (first_success [] (map (\<lambda>l. fst (layer_getByYear l y)) (layersByPriority repo)))"
  unfolding fallbackGetByYear_def layersByPriority_def
  by (simp add: fallbackGetByYear_loop_result [where L = "secondaryLayers repo"] sortedLayers_distinct comp_def)

lemma fallbackGetWeeksWithData_result:
  "fst (fallbackGetWeeksWithData repo y)
     = Inr (first_success {} (map (\<lambda>l. fst (layer_getWeeksWithData l y)) (layersByPriority repo)))"
  unfolding fallbackGetWeeksWithData_def layersByPriority_def
  by (simp add: fallbackGetWeeksWithData_loop_result [where L = "secondaryLayers repo"] sortedLayers_distinct comp_def)

lemma repository_get_fallback:
  "fst (layer_get (primaryLayer repo) wid) = Inl e \<Longrightarrow>
   fst (LayeredRepository_get repo wid)
     = (if fallbackOnError repo
        then Inr (first_found (map (\<lambda>l. fst (layer_get l wid)) (layersByPriority repo)))
        else Inl e)"
  by (auto simp: LayeredRepository_get_def Let_def fallbackGet_result split: prod.splits sum.splits)

lemma repository_getRange_fallback:
  "fst (layer_getRange (primaryLayer repo) s t) = Inl e \<Longrightarrow>
   fst (LayeredRepository_getRange repo s t)
     = (if fallbackOnError repo
        then Inr (first_success [] (map (\<lambda>l. fst (layer_getRange l s t)) (layersByPriority repo)))
        else Inl e)"
  by (auto simp: LayeredRepository_getRange_def Let_def fallbackGetRange_result split: prod.splits sum.splits)

lemma repository_getByYear_fallback:
  "fst (layer_getByYear (primaryLayer repo) y) = Inl e \<Longrightarrow>
   fst (LayeredRepository_getByYear repo y)
     = (if fallbackOnError repo
        then Inr (first_success [] (map (\<lambda>l. fst (layer_getByYear l y)) (layersByPriority repo)))
        else Inl e)"
  by (auto simp: LayeredRepository_getByYear_def Let_def fallbackGetByYear_result split: prod.splits sum.splits)

lemma repository_getWeeksWithData_fallback:
  "fst (layer_getWeeksWithData (primaryLayer repo) y) = Inl e \<Longrightarrow>
   fst (LayeredRepository_getWeeksWithData repo y)
     = (if fallbackOnError repo
        then Inr (first_success {} (map (\<lambda>l. fst (layer_getWeeksWithData l y)) (layersByPriority repo)))
        else Inl e)"
  by (auto simp: LayeredRepository_getWeeksWithData_def Let_def fallbackGetWeeksWithData_result
        split: prod.splits sum.splits)

lemma first_success_member:
  "\<exists>r\<in>set rs. \<exists>v. r = Inr v \<Longrightarrow> Inr (first_success d rs) \<in> set rs"
proof (induction rs)
  case Nil
  then show ?case by simp
next
  case (Cons r rs)
  then show ?case by (cases r) auto
qed

lemma first_found_all_failed: "\<forall>r\<in>set rs. \<exists>e. r = Inl e \<Longrightarrow> first_found rs = None"
  by (induction rs rule: first_found.induct) auto

lemma first_found_member:
  "\<exists>r\<in>set rs. \<exists>v. r = Inr v \<Longrightarrow> Inr (first_found rs) \<in> set rs"
proof (induction rs)
  case Nil
  then show ?case by simp
next
  case (Cons r rs)
  show ?case
  proof (cases r)
    case (Inl e)
    with Cons show ?thesis by auto
  next
    case (Inr found)
    show ?thesis
    proof (cases found)
      case (Some v)
      with Inr show ?thesis by simp
    next
      case None
      show ?thesis
      proof (cases "\<exists>r\<in>set rs. \<exists>v. r = Inr v")
        case True
        with Cons.IH Inr None show ?thesis by simp
      next
        case False
        then have "\<forall>r\<in>set rs. \<exists>e. r = Inl e" by (metis sum.exhaust)
        then have "first_found rs = None" by (rule first_found_all_failed)
        with Inr None show ?thesis by simp
      qed
    qed
  qed
qed

subsection \<open>The read path of the repository\<close>

lemmas repository_example_defs =
  fallback_repository_def empty_first_repository_def with_priority_def example_defs

lemma fallback_repository_layers:
  "layersByPriority (fallback_repository b) =
     [with_priority 60 (IndexedDBLayer failing_db),
      with_priority 50 (IndexedDBLayer (healthy_db [week_2024_1])),
      with_priority 40 (IndexedDBLayer (healthy_db [week_2023_52]))]"
  by (simp add: layersByPriority_def sortedLayers_def array_sort_def fallback_repository_def
        example_repository_def with_priority_def IndexedDBLayer_def)

lemma fallback_repository_fields:
  "fallbackOnError (fallback_repository b) = b"
  "primaryLayer (fallback_repository b) = IndexedDBLayer failing_db"
  "secondaryLayers (fallback_repository b) =
     [with_priority 40 (IndexedDBLayer (healthy_db [week_2023_52])),
      with_priority 60 (IndexedDBLayer failing_db),
      with_priority 50 (IndexedDBLayer (healthy_db [week_2024_1]))]"
  by (simp_all add: fallback_repository_def example_repository_def)

lemma example_layer_results:
  "fst (layer_get (IndexedDBLayer failing_db) \<lparr>year = 2023, week = 52\<rparr>)
     = Inl (JsError ''Error'' ''IndexedDB transaction failed: QuotaExceededError'')"
  "fst (layer_get (with_priority 60 (IndexedDBLayer failing_db)) \<lparr>year = 2023, week = 52\<rparr>)
     = Inl (JsError ''Error'' ''IndexedDB transaction failed: QuotaExceededError'')"
  "fst (layer_get (with_priority 50 (IndexedDBLayer (healthy_db [week_2024_1]))) \<lparr>year = 2023, week = 52\<rparr>)
     = Inr None"
  "fst (layer_get (with_priority 40 (IndexedDBLayer (healthy_db [week_2023_52]))) \<lparr>year = 2023, week = 52\<rparr>)
     = Inr (Some week_2023_52)"
  "fst (layer_getRange (IndexedDBLayer failing_db) \<lparr>year = 2023, week = 1\<rparr> \<lparr>year = 2024, week = 53\<rparr>)
     = Inl (JsError ''Error'' ''Failed to get range: QuotaExceededError'')"
  "fst (layer_getRange (with_priority 60 (IndexedDBLayer failing_db)) \<lparr>year = 2023, week = 1\<rparr> \<lparr>year = 2024, week = 53\<rparr>)
     = Inl (JsError ''Error'' ''Failed to get range: QuotaExceededError'')"
  "fst (layer_getRange (with_priority 50 (IndexedDBLayer (healthy_db [week_2024_1])))
          \<lparr>year = 2023, week = 1\<rparr> \<lparr>year = 2024, week = 53\<rparr>) = Inr [week_2024_1]"
  "fst (layer_getRange (with_priority 40 (IndexedDBLayer (healthy_db [week_2023_52])))
          \<lparr>year = 2023, week = 1\<rparr> \<lparr>year = 2024, week = 53\<rparr>) = Inr [week_2023_52]"
  by (simp_all add: repository_example_defs idb_layer_defs layer_call_defs Let_def)

text \<open>
  C4. When a read falls back, the repository visits the secondary layers in descending
  order of priority. \<^verbatim>\<open>get\<close> passes over a layer that fails or holds no record and returns
  the first record a layer finds. \<^verbatim>\<open>getRange\<close>, \<^verbatim>\<open>getByYear\<close> and \<^verbatim>\<open>getWeeksWithData\<close> pass
  over a layer that fails only: they return the answer of the first layer that does not
  fail, and so the empty answer of that layer too, where the specification asks for the
  first non-empty one. When no layer gives a result the repository returns absent, or the
  empty sequence or set; it never fails.
\<close>

theorem fallback_returns_first_successful_result:
  "sorted_wrt (\<lambda>a b. priority a \<ge> priority b) (layersByPriority repo) \<and>
   mset (layersByPriority repo) = mset (secondaryLayers repo) \<and>
   (fallbackOnError repo \<longrightarrow>
      (\<forall>e. fst (layer_get (primaryLayer repo) wid) = Inl e \<longrightarrow>
         fst (LayeredRepository_get repo wid)
           = Inr (first_found (map (\<lambda>l. fst (layer_get l wid)) (layersByPriority repo)))) \<and>
      (\<forall>e. fst (layer_getRange (primaryLayer repo) s t) = Inl e \<longrightarrow>
         fst (LayeredRepository_getRange repo s t)
           = Inr (first_success [] (map (\<lambda>l. fst (layer_getRange l s t)) (layersByPriority repo)))) \<and>
      (\<forall>e. fst (layer_getByYear (primaryLayer repo) y) = Inl e \<longrightarrow>
         fst (LayeredRepository_getByYear repo y)
           = Inr (first_success [] (map (\<lambda>l. fst (layer_getByYear l y)) (layersByPriority repo)))) \<and>
      (\<forall>e. fst (layer_getWeeksWithData (primaryLayer repo) y) = Inl e \<longrightarrow>
         fst (LayeredRepository_getWeeksWithData repo y)
           = Inr (first_success {} (map (\<lambda>l. fst (layer_getWeeksWithData l y)) (layersByPriority repo)))))"
  by (simp add: layersByPriority_sorted layersByPriority_mset repository_get_fallback
        repository_getRange_fallback repository_getByYear_fallback repository_getWeeksWithData_fallback)

theorem fallback_returns_first_successful_result_witness:
  "fallbackOnError (fallback_repository True) \<and>
   fst (layer_get (primaryLayer (fallback_repository True)) \<lparr>year = 2023, week = 52\<rparr>)
     = Inl (JsError ''Error'' ''IndexedDB transaction failed: QuotaExceededError'') \<and>
   fst (LayeredRepository_get (fallback_repository True) \<lparr>year = 2023, week = 52\<rparr>) = Inr (Some week_2023_52) \<and>
   fst (layer_getRange (primaryLayer (fallback_repository True)) \<lparr>year = 2023, week = 1\<rparr> \<lparr>year = 2024, week = 53\<rparr>)
     = Inl (JsError ''Error'' ''Failed to get range: QuotaExceededError'') \<and>
   fst (LayeredRepository_getRange (fallback_repository True) \<lparr>year = 2023, week = 1\<rparr> \<lparr>year = 2024, week = 53\<rparr>)
     = Inr [week_2024_1]"
  using fallback_returns_first_successful_result
    [of "fallback_repository True" "\<lparr>year = 2023, week = 52\<rparr>"
        "\<lparr>year = 2023, week = 1\<rparr>" "\<lparr>year = 2024, week = 53\<rparr>"]
  by (simp add: fallback_repository_layers fallback_repository_fields example_layer_results)

text \<open>
  C4 fails on a repository whose secondary layer of priority 50 is empty while the one of
  priority 40 holds week 1 of 2024. After the primary layer has failed, \<^verbatim>\<open>getRange\<close>,
  \<^verbatim>\<open>getByYear\<close> and \<^verbatim>\<open>getWeeksWithData\<close> return the empty answer of the first layer, although
  the second layer has a non-empty one; \<^verbatim>\<open>get\<close> on the same repository passes over the empty
  layer and returns the record of the second.
\<close>

theorem fallback_returns_empty_result_counterexample:
  "fallbackOnError empty_first_repository \<and>
   priority (secondaryLayers empty_first_repository ! 1) < priority (secondaryLayers empty_first_repository ! 0) \<and>
   fst (layer_getRange (primaryLayer empty_first_repository) \<lparr>year = 2024, week = 1\<rparr> \<lparr>year = 2024, week = 53\<rparr>)
     = Inl (JsError ''Error'' ''Failed to get range: QuotaExceededError'') \<and>
   fst (layer_getRange (secondaryLayers empty_first_repository ! 0) \<lparr>year = 2024, week = 1\<rparr> \<lparr>year = 2024, week = 53\<rparr>)
     = Inr [] \<and>
   fst (layer_getRange (secondaryLayers empty_first_repository ! 1) \<lparr>year = 2024, week = 1\<rparr> \<lparr>year = 2024, week = 53\<rparr>)
     = Inr [week_2024_1] \<and>
   fst (LayeredRepository_getRange empty_first_repository \<lparr>year = 2024, week = 1\<rparr> \<lparr>year = 2024, week = 53\<rparr>)
     = Inr [] \<and>
   fst (layer_getByYear (secondaryLayers empty_first_repository ! 1) 2024) = Inr [week_2024_1] \<and>
   fst (LayeredRepository_getByYear empty_first_repository 2024) = Inr [] \<and>
   fst (layer_getWeeksWithData (secondaryLayers empty_first_repository ! 1) 2024) = Inr {1} \<and>
   fst (LayeredRepository_getWeeksWithData empty_first_repository 2024) = Inr {} \<and>
   fst (layer_get (secondaryLayers empty_first_repository ! 0) \<lparr>year = 2024, week = 1\<rparr>) = Inr None \<and>
   fst (LayeredRepository_get empty_first_repository \<lparr>year = 2024, week = 1\<rparr>) = Inr (Some week_2024_1)"
  by (simp add: LayeredRepository_getRange_def fallbackGetRange_def
        LayeredRepository_getByYear_def fallbackGetByYear_def
        LayeredRepository_getWeeksWithData_def fallbackGetWeeksWithData_def
        LayeredRepository_get_def fallbackGet_def
        sortedLayers_def array_sort_def
        set_layer_def console_warn_def repository_example_defs idb_layer_defs layer_call_defs Let_def)

text \<open>
  C2. When the primary layer's read fails and \<^verbatim>\<open>fallbackOnError\<close> is off, the repository
  fails with the primary layer's own error. When it is on and some secondary layer's read
  succeeds, the repository returns what one of the working secondary layers returned.
\<close>

theorem primary_failure_falls_back_or_propagates:
  "(\<forall>e. fst (layer_get (primaryLayer repo) wid) = Inl e \<longrightarrow>
      (\<not> fallbackOnError repo \<longrightarrow> fst (LayeredRepository_get repo wid) = Inl e) \<and>
      (fallbackOnError repo \<and> (\<exists>l\<in>set (secondaryLayers repo). \<exists>v. fst (layer_get l wid) = Inr v) \<longrightarrow>
         (\<exists>l\<in>set (secondaryLayers repo). \<exists>v. fst (layer_get l wid) = Inr v
            \<and> fst (LayeredRepository_get repo wid) = Inr v))) \<and>
   (\<forall>e. fst (layer_getRange (primaryLayer repo) s t) = Inl e \<longrightarrow>
      (\<not> fallbackOnError repo \<longrightarrow> fst (LayeredRepository_getRange repo s t) = Inl e) \<and>
      (fallbackOnError repo \<and> (\<exists>l\<in>set (secondaryLayers repo). \<exists>v. fst (layer_getRange l s t) = Inr v) \<longrightarrow>
         (\<exists>l\<in>set (secondaryLayers repo). \<exists>v. fst (layer_getRange l s t) = Inr v
            \<and> fst (LayeredRepository_getRange repo s t) = Inr v))) \<and>
   (\<forall>e. fst (layer_getByYear (primaryLayer repo) y) = Inl e \<longrightarrow>
      (\<not> fallbackOnError repo \<longrightarrow> fst (LayeredRepository_getByYear repo y) = Inl e) \<and>
      (fallbackOnError repo \<and> (\<exists>l\<in>set (secondaryLayers repo). \<exists>v. fst (layer_getByYear l y) = Inr v) \<longrightarrow>
         (\<exists>l\<in>set (secondaryLayers repo). \<exists>v. fst (layer_getByYear l y) = Inr v
            \<and> fst (LayeredRepository_getByYear repo y) = Inr v))) \<and>
   (\<forall>e. fst (layer_getWeeksWithData (primaryLayer repo) y) = Inl e \<longrightarrow>
      (\<not> fallbackOnError repo \<longrightarrow> fst (LayeredRepository_getWeeksWithData repo y) = Inl e) \<and>
      (fallbackOnError repo \<and> (\<exists>l\<in>set (secondaryLayers repo). \<exists>v. fst (layer_getWeeksWithData l y) = Inr v) \<longrightarrow>
         (\<exists>l\<in>set (secondaryLayers repo). \<exists>v. fst (layer_getWeeksWithData l y) = Inr v
            \<and> fst (LayeredRepository_getWeeksWithData repo y) = Inr v)))"
proof -
  have pick: "\<exists>l\<in>set (secondaryLayers repo). \<exists>v. f l = Inr v \<and> Inr (first_success d (map f (layersByPriority repo))) = Inr v"
    if "\<exists>l\<in>set (secondaryLayers repo). \<exists>v. f l = Inr v" for f :: "'a layer \<Rightarrow> 'b result" and d
  proof -
    from that have "\<exists>r\<in>set (map f (layersByPriority repo)). \<exists>v. r = Inr v"
      by (auto simp: layersByPriority_set)
    then have "Inr (first_success d (map f (layersByPriority repo))) \<in> set (map f (layersByPriority repo))"
      by (rule first_success_member)
    then show ?thesis by (auto simp: layersByPriority_set)
  qed
  have pick_found: "\<exists>l\<in>set (secondaryLayers repo). \<exists>v. f l = Inr v \<and> Inr (first_found (map f (layersByPriority repo))) = Inr v"
    if "\<exists>l\<in>set (secondaryLayers repo). \<exists>v. f l = Inr v" for f :: "'a layer \<Rightarrow> WeeklyData option result"
  proof -
    from that have "\<exists>r\<in>set (map f (layersByPriority repo)). \<exists>v. r = Inr v"
      by (auto simp: layersByPriority_set)
    then have "Inr (first_found (map f (layersByPriority repo))) \<in> set (map f (layersByPriority repo))"
      by (rule first_found_member)
    then show ?thesis by (auto simp: layersByPriority_set)
  qed
  have g: "\<forall>e. fst (layer_get (primaryLayer repo) wid) = Inl e \<longrightarrow>
      (\<not> fallbackOnError repo \<longrightarrow> fst (LayeredRepository_get repo wid) = Inl e) \<and>
      (fallbackOnError repo \<and> (\<exists>l\<in>set (secondaryLayers repo). \<exists>v. fst (layer_get l wid) = Inr v) \<longrightarrow>
         (\<exists>l\<in>set (secondaryLayers repo). \<exists>v. fst (layer_get l wid) = Inr v
            \<and> fst (LayeredRepository_get repo wid) = Inr v))"
    using pick_found [of "\<lambda>l. fst (layer_get l wid)"] by (simp add: repository_get_fallback)
  have r: "\<forall>e. fst (layer_getRange (primaryLayer repo) s t) = Inl e \<longrightarrow>
      (\<not> fallbackOnError repo \<longrightarrow> fst (LayeredRepository_getRange repo s t) = Inl e) \<and>
      (fallbackOnError repo \<and> (\<exists>l\<in>set (secondaryLayers repo). \<exists>v. fst (layer_getRange l s t) = Inr v) \<longrightarrow>
         (\<exists>l\<in>set (secondaryLayers repo). \<exists>v. fst (layer_getRange l s t) = Inr v
            \<and> fst (LayeredRepository_getRange repo s t) = Inr v))"
    using pick [of "\<lambda>l. fst (layer_getRange l s t)" "[]"] by (simp add: repository_getRange_fallback)
  have b: "\<forall>e. fst (layer_getByYear (primaryLayer repo) y) = Inl e \<longrightarrow>
      (\<not> fallbackOnError repo \<longrightarrow> fst (LayeredRepository_getByYear repo y) = Inl e) \<and>
      (fallbackOnError repo \<and> (\<exists>l\<in>set (secondaryLayers repo). \<exists>v. fst (layer_getByYear l y) = Inr v) \<longrightarrow>
         (\<exists>l\<in>set (secondaryLayers repo). \<exists>v. fst (layer_getByYear l y) = Inr v
            \<and> fst (LayeredRepository_getByYear repo y) = Inr v))"
    using pick [of "\<lambda>l. fst (layer_getByYear l y)" "[]"] by (simp add: repository_getByYear_fallback)
  have w: "\<forall>e. fst (layer_getWeeksWithData (primaryLayer repo) y) = Inl e \<longrightarrow>
      (\<not> fallbackOnError repo \<longrightarrow> fst (LayeredRepository_getWeeksWithData repo y) = Inl e) \<and>
      (fallbackOnError repo \<and> (\<exists>l\<in>set (secondaryLayers repo). \<exists>v. fst (layer_getWeeksWithData l y) = Inr v) \<longrightarrow>
         (\<exists>l\<in>set (secondaryLayers repo). \<exists>v. fst (layer_getWeeksWithData l y) = Inr v
            \<and> fst (LayeredRepository_getWeeksWithData repo y) = Inr v))"
    using pick [of "\<lambda>l. fst (layer_getWeeksWithData l y)" "{}"]
    by (simp add: repository_getWeeksWithData_fallback)
  from g r b w show ?thesis by blast
qed


text \<open>
  The theorem at a failing primary layer with one working secondary layer: without
  fallback the primary's error comes back, with fallback the secondary layer's data.
\<close>

theorem primary_failure_falls_back_or_propagates_witness:
  "fst (layer_get (primaryLayer (single_secondary_repository False)) \<lparr>year = 2024, week = 1\<rparr>)
     = Inl (JsError ''Error'' ''IndexedDB transaction failed: QuotaExceededError'') \<and>
   \<not> fallbackOnError (single_secondary_repository False) \<and>
   fst (LayeredRepository_get (single_secondary_repository False) \<lparr>year = 2024, week = 1\<rparr>)
     = Inl (JsError ''Error'' ''IndexedDB transaction failed: QuotaExceededError'') \<and>
   fallbackOnError (single_secondary_repository True) \<and>
   fst (layer_get (with_priority 50 (IndexedDBLayer (healthy_db [week_2024_1]))) \<lparr>year = 2024, week = 1\<rparr>)
     = Inr (Some week_2024_1) \<and>
   fst (LayeredRepository_get (single_secondary_repository True) \<lparr>year = 2024, week = 1\<rparr>)
     = Inr (Some week_2024_1) \<and>
   fst (layer_getRange (primaryLayer (single_secondary_repository True)) \<lparr>year = 2024, week = 1\<rparr> \<lparr>year = 2024, week = 53\<rparr>)
     = Inl (JsError ''Error'' ''Failed to get range: QuotaExceededError'') \<and>
   fst (LayeredRepository_getRange (single_secondary_repository True) \<lparr>year = 2024, week = 1\<rparr> \<lparr>year = 2024, week = 53\<rparr>)
     = Inr [week_2024_1] \<and>
   fst (LayeredRepository_getByYear (single_secondary_repository True) 2024) = Inr [week_2024_1] \<and>
   fst (LayeredRepository_getWeeksWithData (single_secondary_repository True) 2024) = Inr {1}"
proof -
  let ?k = "\<lparr>year = 2024, week = 1\<rparr>" and ?t = "\<lparr>year = 2024, week = 53\<rparr>"
  let ?l = "with_priority 50 (IndexedDBLayer (healthy_db [week_2024_1]))"
  have fields:
    "primaryLayer (single_secondary_repository b) = IndexedDBLayer failing_db"
    "secondaryLayers (single_secondary_repository b) = [?l]"
    "fallbackOnError (single_secondary_repository b) = b" for b
    by (simp_all add: single_secondary_repository_def example_repository_def)
  have primary:
    "fst (layer_get (IndexedDBLayer failing_db) ?k)
       = Inl (JsError ''Error'' ''IndexedDB transaction failed: QuotaExceededError'')"
    "fst (layer_getRange (IndexedDBLayer failing_db) ?k ?t)
       = Inl (JsError ''Error'' ''Failed to get range: QuotaExceededError'')"
    "fst (layer_getByYear (IndexedDBLayer failing_db) 2024)
       = Inl (JsError ''Error'' ''Failed to get range: QuotaExceededError'')"
    "fst (layer_getWeeksWithData (IndexedDBLayer failing_db) 2024)
       = Inl (JsError ''Error'' ''Failed to get week numbers: QuotaExceededError'')"
    by (simp_all add: repository_example_defs idb_layer_defs layer_call_defs Let_def)
  have secondary:
    "fst (layer_get ?l ?k) = Inr (Some week_2024_1)"
    "fst (layer_getRange ?l ?k ?t) = Inr [week_2024_1]"
    "fst (layer_getByYear ?l 2024) = Inr [week_2024_1]"
    "fst (layer_getWeeksWithData ?l 2024) = Inr {1}"
    by (simp_all add: repository_example_defs idb_layer_defs layer_call_defs Let_def)
  note off = primary_failure_falls_back_or_propagates [of "single_secondary_repository False" ?k ?k ?t 2024]
  note on = primary_failure_falls_back_or_propagates [of "single_secondary_repository True" ?k ?k ?t 2024]
  from off have "fst (LayeredRepository_get (single_secondary_repository False) ?k)
     = Inl (JsError ''Error'' ''IndexedDB transaction failed: QuotaExceededError'')"
    by (simp add: fields primary)
  moreover from on have "fst (LayeredRepository_get (single_secondary_repository True) ?k) = Inr (Some week_2024_1)"
    "fst (LayeredRepository_getRange (single_secondary_repository True) ?k ?t) = Inr [week_2024_1]"
    "fst (LayeredRepository_getByYear (single_secondary_repository True) 2024) = Inr [week_2024_1]"
    "fst (LayeredRepository_getWeeksWithData (single_secondary_repository True) 2024) = Inr {1}"
    by (simp_all add: fields primary secondary)
  ultimately show ?thesis by (simp add: fields primary secondary)
qed


subsection \<open>The embedded store\<close>

lemma DEFAULT_statusIcon_bytes: "DEFAULT_statusIcon = [CHR 0xE2, CHR 0x9D, CHR 0x94]"
  by (simp add: DEFAULT_statusIcon_def DEFAULT_WEEK_STATUS_def WEEK_STATUSES_def)

lemma buildDataToSave_merged: "merged input existing (buildDataToSave input (toPlainWeekId (in_weekId input)) existing)"
  by (simp add: merged_def buildDataToSave_def toPlainWeekId_def coalesce_def DEFAULT_statusIcon_bytes
        DEFAULT_achievements_def DEFAULT_challenges_def split: option.splits)

lemma store_get_put: "store_get (keyOf r) (store_put r recs) = Some r"
  unfolding store_get_def store_put_def by (induction recs) auto

lemma store_get_delete: "store_get k (store_delete k recs) = None"
  unfolding store_get_def store_delete_def by (induction recs) auto

lemma keyOf_buildDataToSave: "keyOf (buildDataToSave input wid existing) = (year wid, week wid)"
  by (simp add: keyOf_def buildDataToSave_def)

lemma IndexedDBLayer_save_then_get:
  assumes "fst (IndexedDBLayer_save db input) = Inr r"
  shows "fst (IndexedDBLayer_get (snd (IndexedDBLayer_save db input)) (in_weekId input)) = Inr (Some r)"
    and "\<exists>prior. fst (IndexedDBLayer_get db (in_weekId input)) = Inr prior \<and> merged input prior r"
proof -
  from assms have ok: "open_error db = None" "request_error db = None"
    by (auto simp: IndexedDBLayer_save_def IndexedDBLayer_get_def executeTransaction_def initDB_def Let_def
          split: option.splits sum.splits prod.splits)
  let ?prior = "store_get (year (in_weekId input), week (in_weekId input)) (objectStore db)"
  have g: "IndexedDBLayer_get db (in_weekId input) = (Inr ?prior, db)"
    using ok by (simp add: IndexedDBLayer_get_def executeTransaction_def initDB_def)
  have r: "r = buildDataToSave input (toPlainWeekId (in_weekId input)) ?prior"
    and s: "snd (IndexedDBLayer_save db input) = db\<lparr>objectStore := store_put r (objectStore db)\<rparr>"
    using assms ok
    by (auto simp: IndexedDBLayer_save_def IndexedDBLayer_get_def executeTransaction_def initDB_def Let_def
          toPlainWeekId_def)
  have k: "keyOf r = (year (in_weekId input), week (in_weekId input))"
    by (simp add: r keyOf_buildDataToSave toPlainWeekId_def)
  show "fst (IndexedDBLayer_get (snd (IndexedDBLayer_save db input)) (in_weekId input)) = Inr (Some r)"
    using ok store_get_put [of r "objectStore db"]
    by (simp add: s k IndexedDBLayer_get_def executeTransaction_def initDB_def)
  show "\<exists>prior. fst (IndexedDBLayer_get db (in_weekId input)) = Inr prior \<and> merged input prior r"
    using g r buildDataToSave_merged by simp
qed

lemma IndexedDBLayer_delete_idempotent:
  assumes "open_error db = None" "request_error db = None"
  shows "fst (IndexedDBLayer_delete db wid) = Inr ()"
    and "fst (IndexedDBLayer_delete (snd (IndexedDBLayer_delete db wid)) wid) = Inr ()"
    and "fst (IndexedDBLayer_get (snd (IndexedDBLayer_delete db wid)) wid) = Inr None"
    and "fst (IndexedDBLayer_get (snd (IndexedDBLayer_delete (snd (IndexedDBLayer_delete db wid)) wid)) wid) = Inr None"
  using assms store_get_delete [of "(year wid, week wid)"] store_get_delete [of "(year wid, week wid)" "store_delete (year wid, week wid) (objectStore db)"]
  by (simp_all add: IndexedDBLayer_delete_def IndexedDBLayer_get_def executeTransaction_def initDB_def)

lemma idb_cmp_le: "idb_cmp (keyOf a) (keyOf b) \<le> 0 \<longleftrightarrow> week_le (weekId a) (weekId b)"
  by (auto simp: idb_cmp_def keyOf_def week_le_def)

lemma compareWeeks_le: "compareWeeks a b \<le> 0 \<longleftrightarrow> week_le (weekId a) (weekId b)"
  by (auto simp: compareWeeks_def week_le_def)

lemma week_le_trans: "week_le a b \<Longrightarrow> week_le b c \<Longrightarrow> week_le a c"
  by (auto simp: week_le_def)

lemma week_le_total: "\<not> week_le a b \<Longrightarrow> week_le b a"
  by (auto simp: week_le_def)

lemma sorted_by_idb_cmp:
  "sorted_wrt (\<lambda>a b. week_le (weekId a) (weekId b)) (array_sort (\<lambda>a b. idb_cmp (keyOf a) (keyOf b)) xs)"
  by (rule sorted_wrt_array_sort) (auto simp: idb_cmp_le intro: week_le_trans week_le_total)

lemma sorted_by_compareWeeks:
  "sorted_wrt (\<lambda>a b. week_le (weekId a) (weekId b)) (array_sort compareWeeks xs)"
  by (rule sorted_wrt_array_sort) (auto simp: compareWeeks_le intro: week_le_trans week_le_total)

lemma IndexedDBLayer_getRange_sorted:
  "fst (IndexedDBLayer_getRange db s t) = Inr rs \<Longrightarrow> sorted_wrt (\<lambda>a b. week_le (weekId a) (weekId b)) rs"
  by (auto simp: IndexedDBLayer_getRange_def store_getAll_def sorted_by_idb_cmp
        split: sum.splits option.splits)

lemma IndexedDBLayer_getRange_inverted:
  "open_error db = None \<Longrightarrow> \<not> week_le s t \<Longrightarrow>
   fst (IndexedDBLayer_getRange db s t)
     = Inl (JsError ''DataError'' ''The data provided does not meet requirements.'')"
  by (auto simp: IndexedDBLayer_getRange_def initDB_def IDBKeyRange_bound_def idb_cmp_def week_le_def)


subsection \<open>The document-file layer\<close>

lemma init_body_frame:
  "entries (snd (init_body st)) = entries st"
  "initPromise (snd (init_body st)) = initPromise st"
  by (simp_all add: init_body_def split: option.split)

lemma init_frame:
  "entries (snd (init st)) = entries st"
  "initPromise (snd (init st)) = Some (fst (init st))"
  by (simp_all add: init_def split_beta init_body_frame split: option.split)

lemma init_settled: "init (snd (init st)) = init st"
proof -
  have "init (snd (init st)) = (fst (init st), snd (init st))"
    using init_frame(2) [of st] by (simp add: init_def [of "snd (init st)"])
  then show ?thesis by simp
qed

lemma getDirectoryHandle_state: "snd (getDirectoryHandle st) = snd (init st)"
  by (simp add: getDirectoryHandle_def split_beta split: sum.split)

lemma getDirectoryHandle_entries [simp]: "entries (snd (getDirectoryHandle st)) = entries st"
  by (simp add: getDirectoryHandle_state init_frame)

lemma getDirectoryHandle_settled [simp]:
  "getDirectoryHandle (snd (getDirectoryHandle st)) = getDirectoryHandle st"
  unfolding getDirectoryHandle_state
  by (simp add: getDirectoryHandle_def [of "snd (init st)"] getDirectoryHandle_def [of st] init_settled)

lemma init_body_entries_update:
  "init_body (st\<lparr>entries := es\<rparr>) = (fst (init_body st), (snd (init_body st))\<lparr>entries := es\<rparr>)"
  by (simp add: init_body_def split: option.split)

lemma init_entries_update:
  "init (st\<lparr>entries := es\<rparr>) = (fst (init st), (snd (init st))\<lparr>entries := es\<rparr>)"
  by (simp add: init_def init_body_entries_update split_beta split: option.split)

lemma getDirectoryHandle_entries_update [simp]:
  "getDirectoryHandle (st\<lparr>entries := es\<rparr>)
     = (fst (getDirectoryHandle st), (snd (getDirectoryHandle st))\<lparr>entries := es\<rparr>)"
  by (simp add: getDirectoryHandle_def init_entries_update split_beta split: sum.split)

lemma readYearFile_state [simp]: "snd (readYearFile st y) = snd (getDirectoryHandle st)"
  by (simp add: readYearFile_def split_beta split: sum.split)

lemma readYearFile_ready:
  assumes "fst (getDirectoryHandle st) = Inr ()"
  shows "fst (readYearFile st y) =
     (case map_of (entries st) (getFileName y) of
         None \<Rightarrow> Inr None
       | Some (JournalFile j) \<Rightarrow> Inr (Some j)
       | Some MalformedFile \<Rightarrow> Inl (JsError ''SyntaxError'' ''Unexpected token'')
       | Some SubDirectory \<Rightarrow>
           Inl (JsError ''TypeMismatchError'' ''The path supplied exists, but was not an entry of requested type.''))"
  using assms
  by (simp add: readYearFile_def split_beta dir_getFileHandle_def JSON_parse_def readYearFile_catch_def
        split: option.split entry.split sum.split)

lemma writeYearFile_ready:
  assumes "fst (getDirectoryHandle st) = Inr ()"
  shows "writeYearFile st y j =
     (case dir_writeFile (getFileName y) j (entries st) of
        Inl e \<Rightarrow> (Inl (writeYearFile_catch (getFileName y) e), snd (getDirectoryHandle st))
      | Inr es \<Rightarrow> (Inr (), (snd (getDirectoryHandle st))\<lparr>entries := es\<rparr>))"
  using assms
  by (simp add: writeYearFile_def Let_def split_beta split: sum.split)

lemma writeYearFile_fails:
  "fst (getDirectoryHandle st) = Inl e \<Longrightarrow> \<exists>e'. fst (writeYearFile st y j) = Inl e'"
  by (simp add: writeYearFile_def Let_def split_beta)

lemma map_of_replace:
  "map_of (map (\<lambda>p. if fst p = n then (n, v) else p) es) m
     = (if m = n \<and> map_of es n \<noteq> None then Some v else map_of es m)"
  by (induction es) auto

lemma dir_writeFile_lookup:
  assumes "dir_writeFile n j es = Inr es'"
  shows "map_of es' m = (if m = n then Some (JournalFile j) else map_of es m)"
  using assms
  by (auto simp: dir_writeFile_def map_of_replace map_add_def split: option.splits entry.splits)

lemma map_of_filter_fst: "map_of (filter (\<lambda>p. fst p \<noteq> n) es) m = (if m = n then None else map_of es m)"
  by (induction es) auto

lemma dir_removeEntry_lookup:
  assumes "dir_removeEntry n es = Inr es'"
  shows "map_of es' m = (if m = n then None else map_of es m)"
  using assms by (auto simp: dir_removeEntry_def map_of_filter_fst split: option.splits)

lemma map_of_obj_add: "map_of ps k = None \<Longrightarrow> map_of (obj_add k v ps) m = (if m = k then Some v else map_of ps m)"
  by (induction ps) (auto split: if_splits)

lemma map_of_obj_set: "map_of (obj_set k v ps) m = (if m = k then Some v else map_of ps m)"
proof (cases "k \<in> fst ` set ps")
  case True
  then have "map_of ps k \<noteq> None" by (simp add: map_of_eq_None_iff)
  with True show ?thesis by (simp add: obj_set_def map_of_replace)
next
  case False
  then have "map_of ps k = None" by (simp add: map_of_eq_None_iff)
  with False show ?thesis by (simp add: obj_set_def map_of_obj_add)
qed

lemma map_of_obj_delete: "map_of (obj_delete k ps) m = (if m = k then None else map_of ps m)"
  by (simp add: obj_delete_def map_of_filter_fst)


lemma toPlainWeekId_id [simp]: "toPlainWeekId (w :: WeekIdentifier) = w"
  by (cases w) (simp add: toPlainWeekId_def)

lemma readYearFile_not_ready:
  assumes "fst (getDirectoryHandle st) = Inl e"
  shows "fst (readYearFile st y) = readYearFile_catch e"
  using assms by (simp add: readYearFile_def split_beta)

lemma readYearFile_settled [simp]:
  "fst (readYearFile (snd (getDirectoryHandle st)) y) = fst (readYearFile st y)"
  by (simp add: readYearFile_def split_beta)

lemma readYearFile_pair:
  obtains res where "readYearFile st y = (res, snd (getDirectoryHandle st))" "fst (readYearFile st y) = res"
proof -
  have "readYearFile st y = (fst (readYearFile st y), snd (getDirectoryHandle st))"
    by (simp add: prod_eq_iff)
  then show ?thesis using that by simp
qed


lemma FileSystemLayer_get_eq:
  "FileSystemLayer_get st wid =
     (case fst (readYearFile st (year wid)) of
        Inl e \<Rightarrow> (Inl e, snd (getDirectoryHandle st))
      | Inr None \<Rightarrow> (Inr None, snd (getDirectoryHandle st))
      | Inr (Some j) \<Rightarrow> (Inr (map_of (weeks j) (week wid)), snd (getDirectoryHandle st)))"
proof -
  obtain res where rd: "readYearFile st (year wid) = (res, snd (getDirectoryHandle st))"
    and res: "fst (readYearFile st (year wid)) = res" by (rule readYearFile_pair)
  show ?thesis
    unfolding FileSystemLayer_get_def res unfolding rd by (simp split: sum.split option.split)
qed

lemma FileSystemLayer_save_eq:
  assumes "fst (getDirectoryHandle st) = Inr ()"
  shows "FileSystemLayer_save st input =
     (case fst (readYearFile st (year (in_weekId input))) of
        Inl e \<Rightarrow> (Inl e, snd (getDirectoryHandle st))
      | Inr found \<Rightarrow>
          (case dir_writeFile (getFileName (year (in_weekId input)))
                  ((case found of Some j \<Rightarrow> j | None \<Rightarrow> \<lparr>yj_year = year (in_weekId input), weeks = []\<rparr>)
                     \<lparr>weeks := obj_set (week (in_weekId input))
                        (buildDataToSave input (in_weekId input)
                           (map_of (weeks (case found of Some j \<Rightarrow> j
                                           | None \<Rightarrow> \<lparr>yj_year = year (in_weekId input), weeks = []\<rparr>))
                              (week (in_weekId input))))
                        (weeks (case found of Some j \<Rightarrow> j
                                | None \<Rightarrow> \<lparr>yj_year = year (in_weekId input), weeks = []\<rparr>))\<rparr>)
                  (entries st) of
             Inl e \<Rightarrow> (Inl (writeYearFile_catch (getFileName (year (in_weekId input))) e), snd (getDirectoryHandle st))
           | Inr es \<Rightarrow>
               (Inr (buildDataToSave input (in_weekId input)
                       (map_of (weeks (case found of Some j \<Rightarrow> j
                                       | None \<Rightarrow> \<lparr>yj_year = year (in_weekId input), weeks = []\<rparr>))
                          (week (in_weekId input)))),
                (snd (getDirectoryHandle st))\<lparr>entries := es\<rparr>)))"
proof -
  obtain res where rd: "readYearFile st (year (in_weekId input)) = (res, snd (getDirectoryHandle st))"
    and res: "fst (readYearFile st (year (in_weekId input))) = res" by (rule readYearFile_pair)
  have ready: "fst (getDirectoryHandle (snd (getDirectoryHandle st))) = Inr ()"
    using assms by simp
  show ?thesis
    unfolding FileSystemLayer_save_def toPlainWeekId_id Let_def
    by (simp add: rd writeYearFile_ready [OF ready] split: sum.split)
qed

lemma FileSystemLayer_save_not_ready:
  assumes "fst (getDirectoryHandle st) = Inl e"
  shows "\<exists>e'. fst (FileSystemLayer_save st input) = Inl e'"
proof -
  obtain res where rd: "readYearFile st (year (in_weekId input)) = (res, snd (getDirectoryHandle st))"
    by (rule readYearFile_pair)
  have nr: "fst (getDirectoryHandle (snd (getDirectoryHandle st))) = Inl e"
    using assms by simp
  show ?thesis
  proof (cases res)
    case (Inl e')
    then show ?thesis
      unfolding FileSystemLayer_save_def toPlainWeekId_id Let_def by (simp add: rd)
  next
    case (Inr found)
    obtain e' where "fst (writeYearFile (snd (getDirectoryHandle st)) (year (in_weekId input))
        ((case found of Some j \<Rightarrow> j | None \<Rightarrow> \<lparr>yj_year = year (in_weekId input), weeks = []\<rparr>)
           \<lparr>weeks := obj_set (week (in_weekId input))
              (buildDataToSave input (in_weekId input)
                 (map_of (weeks (case found of Some j \<Rightarrow> j
                                 | None \<Rightarrow> \<lparr>yj_year = year (in_weekId input), weeks = []\<rparr>))
                    (week (in_weekId input))))
              (weeks (case found of Some j \<Rightarrow> j
                      | None \<Rightarrow> \<lparr>yj_year = year (in_weekId input), weeks = []\<rparr>))\<rparr>)) = Inl e'"
      using writeYearFile_fails [OF nr] by blast
    with Inr show ?thesis
      unfolding FileSystemLayer_save_def toPlainWeekId_id Let_def
      by (simp add: rd split_beta)
  qed
qed

lemma FileSystemLayer_delete_eq:
  assumes "fst (getDirectoryHandle st) = Inr ()"
  shows "FileSystemLayer_delete st wid =
     (case fst (readYearFile st (year wid)) of
        Inl e \<Rightarrow> (Inl e, snd (getDirectoryHandle st))
      | Inr None \<Rightarrow> (Inr (), snd (getDirectoryHandle st))
      | Inr (Some j) \<Rightarrow>
          (if obj_delete (week wid) (weeks j) = []
           then (case dir_removeEntry (getFileName (year wid)) (entries st) of
                   Inl e \<Rightarrow> (if err_name e = ''NotFoundError'' then (Inr (), snd (getDirectoryHandle st))
                             else (Inl e, snd (getDirectoryHandle st)))
                 | Inr es \<Rightarrow> (Inr (), (snd (getDirectoryHandle st))\<lparr>entries := es\<rparr>))
           else (case dir_writeFile (getFileName (year wid)) (j\<lparr>weeks := obj_delete (week wid) (weeks j)\<rparr>) (entries st) of
                   Inl e \<Rightarrow> (Inl (writeYearFile_catch (getFileName (year wid)) e), snd (getDirectoryHandle st))
                 | Inr es \<Rightarrow> (Inr (), (snd (getDirectoryHandle st))\<lparr>entries := es\<rparr>))))"
proof -
  obtain res where rd: "readYearFile st (year wid) = (res, snd (getDirectoryHandle st))"
    and res: "fst (readYearFile st (year wid)) = res" by (rule readYearFile_pair)
  have ready: "fst (getDirectoryHandle (snd (getDirectoryHandle st))) = Inr ()"
    using assms by simp
  show ?thesis
    unfolding FileSystemLayer_delete_def Let_def
    by (simp add: rd assms split_beta writeYearFile_ready [OF ready] split: sum.split option.split)
qed

lemma FileSystemLayer_delete_not_ready:
  assumes "fst (getDirectoryHandle st) = Inl e"
  shows "FileSystemLayer_delete st wid =
     (case readYearFile_catch e of
        Inl e' \<Rightarrow> (Inl e', snd (getDirectoryHandle st))
      | Inr found \<Rightarrow> (Inr (), snd (getDirectoryHandle st)))"
proof -
  obtain res where rd: "readYearFile st (year wid) = (res, snd (getDirectoryHandle st))"
    and res: "fst (readYearFile st (year wid)) = res" by (rule readYearFile_pair)
  have c: "res = readYearFile_catch e" using readYearFile_not_ready [OF assms, of "year wid"] res by simp
  have "readYearFile_catch e = Inl e \<or> readYearFile_catch e = Inr None"
    by (simp add: readYearFile_catch_def)
  then show ?thesis
    unfolding FileSystemLayer_delete_def Let_def rd c by auto
qed


lemma FileSystemLayer_save_needs_access:
  assumes "fst (FileSystemLayer_save st input) = Inr r"
  shows "fst (getDirectoryHandle st) = Inr ()"
proof (cases "fst (getDirectoryHandle st)")
  case (Inl e)
  from FileSystemLayer_save_not_ready [OF this, of input] assms show ?thesis by simp
next
  case (Inr u)
  then show ?thesis by simp
qed

lemma FileSystemLayer_save_cases:
  assumes "fst (FileSystemLayer_save st input) = Inr r"
  obtains found yearData es where
    "fst (getDirectoryHandle st) = Inr ()"
    "fst (readYearFile st (year (in_weekId input))) = Inr found"
    "yearData = (case found of Some j \<Rightarrow> j | None \<Rightarrow> \<lparr>yj_year = year (in_weekId input), weeks = []\<rparr>)"
    "r = buildDataToSave input (in_weekId input) (map_of (weeks yearData) (week (in_weekId input)))"
    "dir_writeFile (getFileName (year (in_weekId input)))
       (yearData\<lparr>weeks := obj_set (week (in_weekId input)) r (weeks yearData)\<rparr>) (entries st) = Inr es"
    "snd (FileSystemLayer_save st input) = (snd (getDirectoryHandle st))\<lparr>entries := es\<rparr>"
proof -
  note ready = FileSystemLayer_save_needs_access [OF assms]
  note eq = FileSystemLayer_save_eq [OF ready, of input]
  obtain found where rf: "fst (readYearFile st (year (in_weekId input))) = Inr found"
    using assms eq by (cases "fst (readYearFile st (year (in_weekId input)))") auto
  define yearData where "yearData = (case found of Some j \<Rightarrow> j | None \<Rightarrow> \<lparr>yj_year = year (in_weekId input), weeks = []\<rparr>)"
  define r' where "r' = buildDataToSave input (in_weekId input) (map_of (weeks yearData) (week (in_weekId input)))"
  have eq': "FileSystemLayer_save st input =
      (case dir_writeFile (getFileName (year (in_weekId input)))
              (yearData\<lparr>weeks := obj_set (week (in_weekId input)) r' (weeks yearData)\<rparr>) (entries st) of
         Inl e \<Rightarrow> (Inl (writeYearFile_catch (getFileName (year (in_weekId input))) e), snd (getDirectoryHandle st))
       | Inr es \<Rightarrow> (Inr r', (snd (getDirectoryHandle st))\<lparr>entries := es\<rparr>))"
    unfolding eq rf yearData_def r'_def by simp
  obtain es where wr: "dir_writeFile (getFileName (year (in_weekId input)))
       (yearData\<lparr>weeks := obj_set (week (in_weekId input)) r' (weeks yearData)\<rparr>) (entries st) = Inr es"
    using assms eq'
    by (cases "dir_writeFile (getFileName (year (in_weekId input)))
       (yearData\<lparr>weeks := obj_set (week (in_weekId input)) r' (weeks yearData)\<rparr>) (entries st)") auto
  have r: "r = r'" and s: "snd (FileSystemLayer_save st input) = (snd (getDirectoryHandle st))\<lparr>entries := es\<rparr>"
    using assms eq' wr by auto
  show ?thesis
    using that [of found yearData es] ready rf yearData_def r wr s r'_def by simp
qed

lemma FileSystemLayer_save_then_get:
  assumes "fst (FileSystemLayer_save st input) = Inr r"
  shows "fst (FileSystemLayer_get (snd (FileSystemLayer_save st input)) (in_weekId input)) = Inr (Some r)"
    and "\<exists>prior. fst (FileSystemLayer_get st (in_weekId input)) = Inr prior \<and> merged input prior r"
proof -
  from assms obtain found yearData es where
    ready: "fst (getDirectoryHandle st) = Inr ()"
    and rf: "fst (readYearFile st (year (in_weekId input))) = Inr found"
    and yd: "yearData = (case found of Some j \<Rightarrow> j | None \<Rightarrow> \<lparr>yj_year = year (in_weekId input), weeks = []\<rparr>)"
    and r: "r = buildDataToSave input (in_weekId input) (map_of (weeks yearData) (week (in_weekId input)))"
    and wr: "dir_writeFile (getFileName (year (in_weekId input)))
       (yearData\<lparr>weeks := obj_set (week (in_weekId input)) r (weeks yearData)\<rparr>) (entries st) = Inr es"
    and s: "snd (FileSystemLayer_save st input) = (snd (getDirectoryHandle st))\<lparr>entries := es\<rparr>"
    by (rule FileSystemLayer_save_cases)
  have ready': "fst (getDirectoryHandle ((snd (getDirectoryHandle st))\<lparr>entries := es\<rparr>)) = Inr ()"
    using ready by simp
  show "fst (FileSystemLayer_get (snd (FileSystemLayer_save st input)) (in_weekId input)) = Inr (Some r)"
    unfolding s FileSystemLayer_get_eq readYearFile_ready [OF ready']
    by (simp add: dir_writeFile_lookup [OF wr] map_of_obj_set)
  have "fst (FileSystemLayer_get st (in_weekId input)) = Inr (map_of (weeks yearData) (week (in_weekId input)))"
    unfolding FileSystemLayer_get_eq rf yd by (simp split: option.split)
  moreover have "merged input (map_of (weeks yearData) (week (in_weekId input))) r"
    unfolding r using buildDataToSave_merged [of input] by simp
  ultimately show "\<exists>prior. fst (FileSystemLayer_get st (in_weekId input)) = Inr prior \<and> merged input prior r"
    by blast
qed


lemma ready_after_entries_update:
  "fst (getDirectoryHandle st) = Inr () \<Longrightarrow>
   fst (getDirectoryHandle ((snd (getDirectoryHandle st))\<lparr>entries := es\<rparr>)) = Inr ()"
  by simp

lemma FileSystemLayer_get_ready:
  assumes "fst (getDirectoryHandle st) = Inr ()"
  shows "fst (FileSystemLayer_get st wid) =
     (case map_of (entries st) (getFileName (year wid)) of
         None \<Rightarrow> Inr None
       | Some (JournalFile j) \<Rightarrow> Inr (map_of (weeks j) (week wid))
       | Some MalformedFile \<Rightarrow> Inl (JsError ''SyntaxError'' ''Unexpected token'')
       | Some SubDirectory \<Rightarrow>
           Inl (JsError ''TypeMismatchError'' ''The path supplied exists, but was not an entry of requested type.''))"
  unfolding FileSystemLayer_get_eq readYearFile_ready [OF assms]
  by (simp split: option.split entry.split)

lemma FileSystemLayer_delete_absent:
  assumes "fst (FileSystemLayer_get st wid) = Inr None"
  shows "fst (FileSystemLayer_delete st wid) = Inr ()"
proof (cases "fst (getDirectoryHandle st)")
  case (Inl e)
  from assms have "\<exists>found. readYearFile_catch e = Inr found"
    unfolding FileSystemLayer_get_eq readYearFile_not_ready [OF Inl]
    by (cases "readYearFile_catch e") auto
  then show ?thesis
    unfolding FileSystemLayer_delete_not_ready [OF Inl] by auto
next
  case (Inr u)
  then have ready: "fst (getDirectoryHandle st) = Inr ()" by simp
  show ?thesis
  proof (cases "map_of (entries st) (getFileName (year wid))")
    case None
    then show ?thesis
      unfolding FileSystemLayer_delete_eq [OF ready] readYearFile_ready [OF ready] by simp
  next
    case (Some f)
    show ?thesis
    proof (cases f)
      case (JournalFile j)
      with Some show ?thesis
        unfolding FileSystemLayer_delete_eq [OF ready] readYearFile_ready [OF ready]
        by (simp add: dir_removeEntry_def dir_writeFile_def)
    next
      case MalformedFile
      with Some assms show ?thesis
        unfolding FileSystemLayer_get_ready [OF ready] by simp
    next
      case SubDirectory
      with Some assms show ?thesis
        unfolding FileSystemLayer_get_ready [OF ready] by simp
    qed
  qed
qed

lemma FileSystemLayer_get_after_delete:
  assumes "fst (FileSystemLayer_delete st wid) = Inr ()"
  shows "fst (FileSystemLayer_get (snd (FileSystemLayer_delete st wid)) wid) = Inr None"
proof (cases "fst (getDirectoryHandle st)")
  case (Inl e)
  from assms have c: "readYearFile_catch e = Inr None"
    unfolding FileSystemLayer_delete_not_ready [OF Inl]
    by (cases "readYearFile_catch e") (auto simp: readYearFile_catch_def split: if_splits)
  then have s: "snd (FileSystemLayer_delete st wid) = snd (getDirectoryHandle st)"
    unfolding FileSystemLayer_delete_not_ready [OF Inl] by simp
  show ?thesis
    unfolding s FileSystemLayer_get_eq by (simp add: readYearFile_not_ready [OF Inl] c)
next
  case (Inr u)
  then have ready: "fst (getDirectoryHandle st) = Inr ()" by simp
  note ready' = ready_after_entries_update [OF ready]
  have ready'': "fst (getDirectoryHandle (snd (getDirectoryHandle st))) = Inr ()"
    using ready by simp
  show ?thesis
  proof (cases "map_of (entries st) (getFileName (year wid))")
    case None
    then have s: "snd (FileSystemLayer_delete st wid) = snd (getDirectoryHandle st)"
      unfolding FileSystemLayer_delete_eq [OF ready] readYearFile_ready [OF ready] by simp
    show ?thesis
      unfolding s FileSystemLayer_get_ready [OF ready''] using None by simp
  next
    case (Some f)
    show ?thesis
    proof (cases f)
      case (JournalFile j)
      show ?thesis
      proof (cases "obj_delete (week wid) (weeks j) = []")
        case True
        have s: "snd (FileSystemLayer_delete st wid)
            = (snd (getDirectoryHandle st))\<lparr>entries := filter (\<lambda>p. fst p \<noteq> getFileName (year wid)) (entries st)\<rparr>"
          using Some JournalFile True
          unfolding FileSystemLayer_delete_eq [OF ready] readYearFile_ready [OF ready]
          by (simp add: dir_removeEntry_def)
        show ?thesis
          unfolding s FileSystemLayer_get_ready [OF ready']
          by (simp add: map_of_filter_fst)
      next
        case False
        have s: "snd (FileSystemLayer_delete st wid)
            = (snd (getDirectoryHandle st))\<lparr>entries :=
                 map (\<lambda>p. if fst p = getFileName (year wid)
                           then (getFileName (year wid), JournalFile (j\<lparr>weeks := obj_delete (week wid) (weeks j)\<rparr>))
                           else p) (entries st)\<rparr>"
          using Some JournalFile False
          unfolding FileSystemLayer_delete_eq [OF ready] readYearFile_ready [OF ready]
          by (simp add: dir_writeFile_def)
        show ?thesis
          unfolding s FileSystemLayer_get_ready [OF ready']
          using Some by (simp add: map_of_replace map_of_obj_delete)
      qed
    next
      case MalformedFile
      with Some assms show ?thesis
        unfolding FileSystemLayer_delete_eq [OF ready] readYearFile_ready [OF ready] by simp
    next
      case SubDirectory
      with Some assms show ?thesis
        unfolding FileSystemLayer_delete_eq [OF ready] readYearFile_ready [OF ready] by simp
    qed
  qed
qed


subsection \<open>Save, get and delete in both layers\<close>

lemmas fs_layer_defs =
  FileSystemLayer_save_def FileSystemLayer_get_def FileSystemLayer_delete_def
  FileSystemLayer_getByYear_def FileSystemLayer_getWeeksWithData_def
  readYearFile_def writeYearFile_def readYearFile_catch_def writeYearFile_catch_def
  getDirectoryHandle_def init_def init_body_def dir_getFileHandle_def dir_writeFile_def dir_removeEntry_def
  JSON_parse_def obj_set_def obj_delete_def is_array_index_def
  buildDataToSave_def coalesce_def toPlainWeekId_def new_Error_def
  DEFAULT_achievements_def DEFAULT_challenges_def DEFAULT_statusIcon_bytes

lemmas fs_example_defs =
  granted_directory_def week_2024_15_def update_challenges_def create_empty_def
  year_file_def

text \<open>
  C1. In both layers, a \<^verbatim>\<open>save\<close> that succeeds is followed by a \<^verbatim>\<open>get\<close> of the same key
  that returns the saved record; in that record a supplied field has the supplied value,
  and a field left out has the value of the record the layer held before, or the default
  (the Unknown icon, the empty string) when the layer held none.
\<close>

theorem save_then_get_returns_merged_record:
  "(fst (IndexedDBLayer_save db input) = Inr r \<longrightarrow>
      fst (IndexedDBLayer_get (snd (IndexedDBLayer_save db input)) (in_weekId input)) = Inr (Some r) \<and>
      (\<exists>prior. fst (IndexedDBLayer_get db (in_weekId input)) = Inr prior \<and> merged input prior r)) \<and>
   (fst (FileSystemLayer_save st input) = Inr r' \<longrightarrow>
      fst (FileSystemLayer_get (snd (FileSystemLayer_save st input)) (in_weekId input)) = Inr (Some r') \<and>
      (\<exists>prior. fst (FileSystemLayer_get st (in_weekId input)) = Inr prior \<and> merged input prior r'))"
  using IndexedDBLayer_save_then_get [of db input r] FileSystemLayer_save_then_get [of st input r']
  by blast

text \<open>
  The theorem at the scenario of the specification, in both layers: the update that
  supplies only the challenges keeps the status and the achievements; and a first save
  that supplies nothing stores the defaults.
\<close>

theorem save_then_get_returns_merged_record_witness:
  "fst (IndexedDBLayer_save (healthy_db [week_2024_15 []]) update_challenges) = Inr (week_2024_15 ''C'') \<and>
   fst (IndexedDBLayer_get (snd (IndexedDBLayer_save (healthy_db [week_2024_15 []]) update_challenges))
          \<lparr>year = 2024, week = 15\<rparr>) = Inr (Some (week_2024_15 ''C'')) \<and>
   fst (FileSystemLayer_save (granted_directory [year_file 2024 [(15, week_2024_15 [])]]) update_challenges)
     = Inr (week_2024_15 ''C'') \<and>
   fst (FileSystemLayer_get
          (snd (FileSystemLayer_save (granted_directory [year_file 2024 [(15, week_2024_15 [])]]) update_challenges))
          \<lparr>year = 2024, week = 15\<rparr>) = Inr (Some (week_2024_15 ''C'')) \<and>
   fst (FileSystemLayer_save (granted_directory []) create_empty)
     = Inr \<lparr>weekId = \<lparr>year = 2024, week = 15\<rparr>, statusIcon = [CHR 0xE2, CHR 0x9D, CHR 0x94],
            achievements = [], challenges = []\<rparr> \<and>
   fst (FileSystemLayer_get (snd (FileSystemLayer_save (granted_directory []) create_empty))
          \<lparr>year = 2024, week = 15\<rparr>)
     = Inr (Some \<lparr>weekId = \<lparr>year = 2024, week = 15\<rparr>, statusIcon = [CHR 0xE2, CHR 0x9D, CHR 0x94],
            achievements = [], challenges = []\<rparr>)"
proof -
  have a: "fst (IndexedDBLayer_save (healthy_db [week_2024_15 []]) update_challenges) = Inr (week_2024_15 ''C'')"
    by (simp add: example_defs fs_example_defs idb_layer_defs Let_def)
  have b: "fst (FileSystemLayer_save (granted_directory [year_file 2024 [(15, week_2024_15 [])]]) update_challenges)
     = Inr (week_2024_15 ''C'')"
    by (simp add: fs_example_defs fs_layer_defs Let_def)
  have c: "fst (FileSystemLayer_save (granted_directory []) create_empty)
     = Inr \<lparr>weekId = \<lparr>year = 2024, week = 15\<rparr>, statusIcon = [CHR 0xE2, CHR 0x9D, CHR 0x94],
            achievements = [], challenges = []\<rparr>"
    by (simp add: fs_example_defs fs_layer_defs Let_def)
  have k: "in_weekId update_challenges = \<lparr>year = 2024, week = 15\<rparr>"
    "in_weekId create_empty = \<lparr>year = 2024, week = 15\<rparr>"
    by (simp_all add: fs_example_defs)
  from save_then_get_returns_merged_record
    [of "healthy_db [week_2024_15 []]" update_challenges "week_2024_15 ''C''"
        "granted_directory [year_file 2024 [(15, week_2024_15 [])]]" "week_2024_15 ''C''"]
    save_then_get_returns_merged_record
    [of "healthy_db []" create_empty _ "granted_directory []"
        "\<lparr>weekId = \<lparr>year = 2024, week = 15\<rparr>, statusIcon = [CHR 0xE2, CHR 0x9D, CHR 0x94],
            achievements = [], challenges = []\<rparr>"]
    a b c
  show ?thesis by (simp add: k)
qed

text \<open>
  C7. In both layers \<^verbatim>\<open>delete\<close> is idempotent: deleting a key the layer reports absent
  (in the file layer also when the year has no file) succeeds; after a \<^verbatim>\<open>delete\<close> that
  succeeded a second \<^verbatim>\<open>delete\<close> of the key succeeds too, and \<^verbatim>\<open>get\<close> of the key returns
  absent after the first and after the second.
\<close>

theorem delete_is_idempotent:
  "(fst (IndexedDBLayer_get db wid) = Inr None \<longrightarrow> fst (IndexedDBLayer_delete db wid) = Inr ()) \<and>
   (fst (IndexedDBLayer_delete db wid) = Inr () \<longrightarrow>
      fst (IndexedDBLayer_delete (snd (IndexedDBLayer_delete db wid)) wid) = Inr () \<and>
      fst (IndexedDBLayer_get (snd (IndexedDBLayer_delete db wid)) wid) = Inr None \<and>
      fst (IndexedDBLayer_get (snd (IndexedDBLayer_delete (snd (IndexedDBLayer_delete db wid)) wid)) wid) = Inr None) \<and>
   (fst (FileSystemLayer_get st wid) = Inr None \<longrightarrow> fst (FileSystemLayer_delete st wid) = Inr ()) \<and>
   (fst (FileSystemLayer_delete st wid) = Inr () \<longrightarrow>
      fst (FileSystemLayer_delete (snd (FileSystemLayer_delete st wid)) wid) = Inr () \<and>
      fst (FileSystemLayer_get (snd (FileSystemLayer_delete st wid)) wid) = Inr None \<and>
      fst (FileSystemLayer_get (snd (FileSystemLayer_delete (snd (FileSystemLayer_delete st wid)) wid)) wid) = Inr None)"
proof -
  have healthy: "open_error db = None \<and> request_error db = None"
    if "fst (IndexedDBLayer_get db wid) = Inr None \<or> fst (IndexedDBLayer_delete db wid) = Inr ()"
    using that
    by (auto simp: IndexedDBLayer_get_def IndexedDBLayer_delete_def executeTransaction_def initDB_def
          split: option.splits)
  have idb1: "fst (IndexedDBLayer_get db wid) = Inr None \<longrightarrow> fst (IndexedDBLayer_delete db wid) = Inr ()"
    using healthy IndexedDBLayer_delete_idempotent(1) [of db wid] by blast
  have idb2: "fst (IndexedDBLayer_delete db wid) = Inr () \<longrightarrow>
      fst (IndexedDBLayer_delete (snd (IndexedDBLayer_delete db wid)) wid) = Inr () \<and>
      fst (IndexedDBLayer_get (snd (IndexedDBLayer_delete db wid)) wid) = Inr None \<and>
      fst (IndexedDBLayer_get (snd (IndexedDBLayer_delete (snd (IndexedDBLayer_delete db wid)) wid)) wid) = Inr None"
    using healthy IndexedDBLayer_delete_idempotent [of db wid] by blast
  have fs1: "fst (FileSystemLayer_get st wid) = Inr None \<longrightarrow> fst (FileSystemLayer_delete st wid) = Inr ()"
    using FileSystemLayer_delete_absent by blast
  have fs2: "fst (FileSystemLayer_delete st wid) = Inr () \<longrightarrow>
      fst (FileSystemLayer_delete (snd (FileSystemLayer_delete st wid)) wid) = Inr () \<and>
      fst (FileSystemLayer_get (snd (FileSystemLayer_delete st wid)) wid) = Inr None \<and>
      fst (FileSystemLayer_get (snd (FileSystemLayer_delete (snd (FileSystemLayer_delete st wid)) wid)) wid) = Inr None"
  proof
    assume d: "fst (FileSystemLayer_delete st wid) = Inr ()"
    note g1 = FileSystemLayer_get_after_delete [OF d]
    note d2 = FileSystemLayer_delete_absent [OF g1]
    note g2 = FileSystemLayer_get_after_delete [OF d2]
    from g1 d2 g2 show "fst (FileSystemLayer_delete (snd (FileSystemLayer_delete st wid)) wid) = Inr () \<and>
      fst (FileSystemLayer_get (snd (FileSystemLayer_delete st wid)) wid) = Inr None \<and>
      fst (FileSystemLayer_get (snd (FileSystemLayer_delete (snd (FileSystemLayer_delete st wid)) wid)) wid) = Inr None"
      by blast
  qed
  from idb1 idb2 fs1 fs2 show ?thesis by blast
qed

text \<open>
  The theorem at a store and a directory that hold week 1 of 2024, and at a key of a year
  for which the directory has no file.
\<close>

theorem delete_is_idempotent_witness:
  "fst (IndexedDBLayer_delete (healthy_db [week_2024_1]) \<lparr>year = 2024, week = 1\<rparr>) = Inr () \<and>
   fst (IndexedDBLayer_delete (snd (IndexedDBLayer_delete (healthy_db [week_2024_1]) \<lparr>year = 2024, week = 1\<rparr>))
          \<lparr>year = 2024, week = 1\<rparr>) = Inr () \<and>
   fst (IndexedDBLayer_get (snd (IndexedDBLayer_delete (healthy_db [week_2024_1]) \<lparr>year = 2024, week = 1\<rparr>))
          \<lparr>year = 2024, week = 1\<rparr>) = Inr None \<and>
   fst (IndexedDBLayer_get (healthy_db [week_2024_1]) \<lparr>year = 2023, week = 52\<rparr>) = Inr None \<and>
   fst (IndexedDBLayer_delete (healthy_db [week_2024_1]) \<lparr>year = 2023, week = 52\<rparr>) = Inr () \<and>
   fst (FileSystemLayer_delete (granted_directory [year_file 2024 [(1, week_2024_1)]]) \<lparr>year = 2024, week = 1\<rparr>) = Inr () \<and>
   fst (FileSystemLayer_delete
          (snd (FileSystemLayer_delete (granted_directory [year_file 2024 [(1, week_2024_1)]]) \<lparr>year = 2024, week = 1\<rparr>))
          \<lparr>year = 2024, week = 1\<rparr>) = Inr () \<and>
   fst (FileSystemLayer_get
          (snd (FileSystemLayer_delete (granted_directory [year_file 2024 [(1, week_2024_1)]]) \<lparr>year = 2024, week = 1\<rparr>))
          \<lparr>year = 2024, week = 1\<rparr>) = Inr None \<and>
   fst (FileSystemLayer_get (granted_directory []) \<lparr>year = 2023, week = 52\<rparr>) = Inr None \<and>
   fst (FileSystemLayer_delete (granted_directory []) \<lparr>year = 2023, week = 52\<rparr>) = Inr ()"
proof -
  have a: "fst (IndexedDBLayer_delete (healthy_db [week_2024_1]) \<lparr>year = 2024, week = 1\<rparr>) = Inr ()"
    "fst (IndexedDBLayer_get (healthy_db [week_2024_1]) \<lparr>year = 2023, week = 52\<rparr>) = Inr None"
    by (simp_all add: example_defs idb_layer_defs)
  have b: "fst (FileSystemLayer_delete (granted_directory [year_file 2024 [(1, week_2024_1)]]) \<lparr>year = 2024, week = 1\<rparr>) = Inr ()"
    "fst (FileSystemLayer_get (granted_directory []) \<lparr>year = 2023, week = 52\<rparr>) = Inr None"
    by (simp_all add: fs_example_defs fs_layer_defs Let_def)
  from delete_is_idempotent
      [of "healthy_db [week_2024_1]" "\<lparr>year = 2024, week = 1\<rparr>"
          "granted_directory [year_file 2024 [(1, week_2024_1)]]"]
    delete_is_idempotent
      [of "healthy_db [week_2024_1]" "\<lparr>year = 2023, week = 52\<rparr>" "granted_directory []"]
    a b
  show ?thesis by simp
qed


subsection \<open>The year files\<close>

lemma obj_delete_empty_iff: "obj_delete k ps = [] \<longleftrightarrow> fst ` set ps \<subseteq> {k}"
  by (auto simp: obj_delete_def filter_empty_conv)

lemma FileSystemLayer_save_file:
  assumes "fst (FileSystemLayer_save st input) = Inr r"
  shows "\<exists>j. map_of (entries (snd (FileSystemLayer_save st input))) (getFileName (year (in_weekId input)))
              = Some (JournalFile j)
           \<and> map_of (weeks j) (week (in_weekId input)) = Some r
           \<and> (\<forall>k. k \<noteq> week (in_weekId input) \<longrightarrow>
                 map_of (weeks j) k =
                   (case map_of (entries st) (getFileName (year (in_weekId input))) of
                      Some (JournalFile j0) \<Rightarrow> map_of (weeks j0) k
                    | _ \<Rightarrow> None))"
    and "\<forall>m. m \<noteq> getFileName (year (in_weekId input)) \<longrightarrow>
           map_of (entries (snd (FileSystemLayer_save st input))) m = map_of (entries st) m"
proof -
  from assms obtain found yearData es where
    ready: "fst (getDirectoryHandle st) = Inr ()"
    and rf: "fst (readYearFile st (year (in_weekId input))) = Inr found"
    and yd: "yearData = (case found of Some j \<Rightarrow> j | None \<Rightarrow> \<lparr>yj_year = year (in_weekId input), weeks = []\<rparr>)"
    and r: "r = buildDataToSave input (in_weekId input) (map_of (weeks yearData) (week (in_weekId input)))"
    and wr: "dir_writeFile (getFileName (year (in_weekId input)))
       (yearData\<lparr>weeks := obj_set (week (in_weekId input)) r (weeks yearData)\<rparr>) (entries st) = Inr es"
    and s: "snd (FileSystemLayer_save st input) = (snd (getDirectoryHandle st))\<lparr>entries := es\<rparr>"
    by (rule FileSystemLayer_save_cases)
  have old: "map_of (weeks yearData) k =
      (case map_of (entries st) (getFileName (year (in_weekId input))) of
         Some (JournalFile j0) \<Rightarrow> map_of (weeks j0) k
       | _ \<Rightarrow> None)" for k
    using rf unfolding readYearFile_ready [OF ready] yd
    by (auto split: option.splits entry.splits)
  show "\<exists>j. map_of (entries (snd (FileSystemLayer_save st input))) (getFileName (year (in_weekId input)))
              = Some (JournalFile j)
           \<and> map_of (weeks j) (week (in_weekId input)) = Some r
           \<and> (\<forall>k. k \<noteq> week (in_weekId input) \<longrightarrow>
                 map_of (weeks j) k =
                   (case map_of (entries st) (getFileName (year (in_weekId input))) of
                      Some (JournalFile j0) \<Rightarrow> map_of (weeks j0) k
                    | _ \<Rightarrow> None))"
    unfolding s using old by (simp add: dir_writeFile_lookup [OF wr] map_of_obj_set)
  show "\<forall>m. m \<noteq> getFileName (year (in_weekId input)) \<longrightarrow>
           map_of (entries (snd (FileSystemLayer_save st input))) m = map_of (entries st) m"
    unfolding s by (simp add: dir_writeFile_lookup [OF wr])
qed

lemma FileSystemLayer_delete_only_week:
  assumes ready: "fst (getDirectoryHandle st) = Inr ()"
    and jf: "map_of (entries st) (getFileName (year wid)) = Some (JournalFile j)"
    and only: "fst ` set (weeks j) \<subseteq> {week wid}"
  shows "fst (FileSystemLayer_delete st wid) = Inr ()"
    and "map_of (entries (snd (FileSystemLayer_delete st wid))) m
           = (if m = getFileName (year wid) then None else map_of (entries st) m)"
  using jf only
  unfolding FileSystemLayer_delete_eq [OF ready] readYearFile_ready [OF ready]
  by (simp_all add: obj_delete_empty_iff dir_removeEntry_def map_of_filter_fst)

lemma FileSystemLayer_delete_one_of_several:
  assumes ready: "fst (getDirectoryHandle st) = Inr ()"
    and jf: "map_of (entries st) (getFileName (year wid)) = Some (JournalFile j)"
    and several: "\<not> fst ` set (weeks j) \<subseteq> {week wid}"
  shows "fst (FileSystemLayer_delete st wid) = Inr ()"
    and "map_of (entries (snd (FileSystemLayer_delete st wid))) m
           = (if m = getFileName (year wid)
              then Some (JournalFile (j\<lparr>weeks := obj_delete (week wid) (weeks j)\<rparr>))
              else map_of (entries st) m)"
  using jf several
  unfolding FileSystemLayer_delete_eq [OF ready] readYearFile_ready [OF ready]
  by (simp_all add: obj_delete_empty_iff dir_writeFile_def map_of_replace)

text \<open>
  C9. In the file layer a record of year Y is stored in the file \<^verbatim>\<open>work-journal-Y.json\<close>,
  which \<^verbatim>\<open>save\<close> creates when it is absent; the other weeks of the file and the other
  files stay as they were. Deleting the only week of the file removes the file; deleting
  one of several weeks rewrites the file with the other weeks as they were.
\<close>

theorem year_file_holds_the_weeks_of_its_year:
  "(fst (FileSystemLayer_save st input) = Inr r \<longrightarrow>
      (\<exists>j. map_of (entries (snd (FileSystemLayer_save st input))) (getFileName (year (in_weekId input)))
              = Some (JournalFile j)
          \<and> map_of (weeks j) (week (in_weekId input)) = Some r
          \<and> (\<forall>k. k \<noteq> week (in_weekId input) \<longrightarrow>
                map_of (weeks j) k =
                  (case map_of (entries st) (getFileName (year (in_weekId input))) of
                     Some (JournalFile j0) \<Rightarrow> map_of (weeks j0) k
                   | _ \<Rightarrow> None))) \<and>
      (\<forall>m. m \<noteq> getFileName (year (in_weekId input)) \<longrightarrow>
          map_of (entries (snd (FileSystemLayer_save st input))) m = map_of (entries st) m)) \<and>
   (fst (getDirectoryHandle st) = Inr () \<and>
    map_of (entries st) (getFileName (year wid)) = Some (JournalFile j') \<longrightarrow>
      fst (FileSystemLayer_delete st wid) = Inr () \<and>
      (\<forall>m. m \<noteq> getFileName (year wid) \<longrightarrow>
          map_of (entries (snd (FileSystemLayer_delete st wid))) m = map_of (entries st) m) \<and>
      (fst ` set (weeks j') \<subseteq> {week wid} \<longrightarrow>
          map_of (entries (snd (FileSystemLayer_delete st wid))) (getFileName (year wid)) = None) \<and>
      (\<not> fst ` set (weeks j') \<subseteq> {week wid} \<longrightarrow>
          (\<exists>j. map_of (entries (snd (FileSystemLayer_delete st wid))) (getFileName (year wid))
                  = Some (JournalFile j)
              \<and> map_of (weeks j) (week wid) = None
              \<and> (\<forall>k. k \<noteq> week wid \<longrightarrow> map_of (weeks j) k = map_of (weeks j') k))))"
proof -
  have sv: "fst (FileSystemLayer_save st input) = Inr r \<longrightarrow>
      (\<exists>j. map_of (entries (snd (FileSystemLayer_save st input))) (getFileName (year (in_weekId input)))
              = Some (JournalFile j)
          \<and> map_of (weeks j) (week (in_weekId input)) = Some r
          \<and> (\<forall>k. k \<noteq> week (in_weekId input) \<longrightarrow>
                map_of (weeks j) k =
                  (case map_of (entries st) (getFileName (year (in_weekId input))) of
                     Some (JournalFile j0) \<Rightarrow> map_of (weeks j0) k
                   | _ \<Rightarrow> None))) \<and>
      (\<forall>m. m \<noteq> getFileName (year (in_weekId input)) \<longrightarrow>
          map_of (entries (snd (FileSystemLayer_save st input))) m = map_of (entries st) m)"
    using FileSystemLayer_save_file [of st input r] by blast
  have dl: "fst (FileSystemLayer_delete st wid) = Inr () \<and>
      (\<forall>m. m \<noteq> getFileName (year wid) \<longrightarrow>
          map_of (entries (snd (FileSystemLayer_delete st wid))) m = map_of (entries st) m) \<and>
      (fst ` set (weeks j') \<subseteq> {week wid} \<longrightarrow>
          map_of (entries (snd (FileSystemLayer_delete st wid))) (getFileName (year wid)) = None) \<and>
      (\<not> fst ` set (weeks j') \<subseteq> {week wid} \<longrightarrow>
          (\<exists>j. map_of (entries (snd (FileSystemLayer_delete st wid))) (getFileName (year wid))
                  = Some (JournalFile j)
              \<and> map_of (weeks j) (week wid) = None
              \<and> (\<forall>k. k \<noteq> week wid \<longrightarrow> map_of (weeks j) k = map_of (weeks j') k)))"
    if ready: "fst (getDirectoryHandle st) = Inr ()"
      and jf: "map_of (entries st) (getFileName (year wid)) = Some (JournalFile j')"
  proof (cases "fst ` set (weeks j') \<subseteq> {week wid}")
    case True
    from FileSystemLayer_delete_only_week [OF ready jf True] True show ?thesis by simp
  next
    case False
    from FileSystemLayer_delete_one_of_several [OF ready jf False] False show ?thesis
      by (simp add: map_of_obj_delete)
  qed
  from sv dl show ?thesis by blast
qed


lemma getFileName_2024: "getFileName 2024 = ''work-journal-2024.json''"
  by (simp add: getFileName_def string_of_int_def string_of_nat.simps digit_char_def)

lemma getFileName_2023: "getFileName 2023 = ''work-journal-2023.json''"
  by (simp add: getFileName_def string_of_int_def string_of_nat.simps digit_char_def)

lemma granted_directory_ready: "fst (getDirectoryHandle (granted_directory es)) = Inr ()"
  by (simp add: granted_directory_def getDirectoryHandle_def init_def init_body_def)

lemma granted_directory_entries: "entries (granted_directory es) = es"
  by (simp add: granted_directory_def)

text \<open>
  The theorem at three directories: an empty one, where saving week 1 of 2024 creates
  \<^verbatim>\<open>work-journal-2024.json\<close>; one whose file of 2024 holds week 1 only, where deleting
  the week removes the file; and one whose file holds weeks 1 and 15, where deleting
  week 1 leaves week 15.
\<close>

theorem year_file_holds_the_weeks_of_its_year_witness:
  "fst (FileSystemLayer_save (granted_directory []) (inputOf week_2024_1)) = Inr week_2024_1 \<and>
   (\<exists>j. map_of (entries (snd (FileSystemLayer_save (granted_directory []) (inputOf week_2024_1))))
           ''work-journal-2024.json'' = Some (JournalFile j)
       \<and> map_of (weeks j) 1 = Some week_2024_1
       \<and> (\<forall>k. k \<noteq> 1 \<longrightarrow> map_of (weeks j) k = None)) \<and>
   fst (FileSystemLayer_delete (granted_directory [year_file 2024 [(1, week_2024_1)]])
          \<lparr>year = 2024, week = 1\<rparr>) = Inr () \<and>
   map_of (entries (snd (FileSystemLayer_delete (granted_directory [year_file 2024 [(1, week_2024_1)]])
          \<lparr>year = 2024, week = 1\<rparr>))) ''work-journal-2024.json'' = None \<and>
   fst (FileSystemLayer_delete (granted_directory [year_file 2024 [(1, week_2024_1), (15, week_2024_15 [])]])
          \<lparr>year = 2024, week = 1\<rparr>) = Inr () \<and>
   (\<exists>j. map_of (entries (snd (FileSystemLayer_delete
            (granted_directory [year_file 2024 [(1, week_2024_1), (15, week_2024_15 [])]])
            \<lparr>year = 2024, week = 1\<rparr>))) ''work-journal-2024.json'' = Some (JournalFile j)
       \<and> map_of (weeks j) 1 = None
       \<and> map_of (weeks j) 15 = Some (week_2024_15 []))"
proof -
  have s: "fst (FileSystemLayer_save (granted_directory []) (inputOf week_2024_1)) = Inr week_2024_1"
    by (simp add: fs_example_defs example_defs fs_layer_defs inputOf_def Let_def)
  have k: "in_weekId (inputOf week_2024_1) = \<lparr>year = 2024, week = 1\<rparr>"
    by (simp add: inputOf_def week_2024_1_def)
  have f1: "map_of (entries (granted_directory [year_file 2024 [(1, week_2024_1)]])) (getFileName 2024)
      = Some (JournalFile \<lparr>yj_year = 2024, weeks = [(1, week_2024_1)]\<rparr>)"
    and f2: "map_of (entries (granted_directory [year_file 2024 [(1, week_2024_1), (15, week_2024_15 [])]])) (getFileName 2024)
      = Some (JournalFile \<lparr>yj_year = 2024, weeks = [(1, week_2024_1), (15, week_2024_15 [])]\<rparr>)"
    by (simp_all add: granted_directory_entries year_file_def)
  note t_save = year_file_holds_the_weeks_of_its_year
    [of "granted_directory []" "inputOf week_2024_1" week_2024_1, THEN conjunct1]
  note t_only = year_file_holds_the_weeks_of_its_year
    [where st = "granted_directory [year_file 2024 [(1, week_2024_1)]]"
       and wid = "\<lparr>year = 2024, week = 1\<rparr>"
       and j' = "\<lparr>yj_year = 2024, weeks = [(1, week_2024_1)]\<rparr>", THEN conjunct2]
  note t_several = year_file_holds_the_weeks_of_its_year
    [where st = "granted_directory [year_file 2024 [(1, week_2024_1), (15, week_2024_15 [])]]"
       and wid = "\<lparr>year = 2024, week = 1\<rparr>"
       and j' = "\<lparr>yj_year = 2024, weeks = [(1, week_2024_1), (15, week_2024_15 [])]\<rparr>", THEN conjunct2]
  from t_save s have a: "\<exists>j. map_of (entries (snd (FileSystemLayer_save (granted_directory []) (inputOf week_2024_1))))
           ''work-journal-2024.json'' = Some (JournalFile j)
       \<and> map_of (weeks j) 1 = Some week_2024_1
       \<and> (\<forall>k. k \<noteq> 1 \<longrightarrow> map_of (weeks j) k = None)"
    by (simp add: k getFileName_2024 granted_directory_entries)
  from t_only f1 have b: "fst (FileSystemLayer_delete (granted_directory [year_file 2024 [(1, week_2024_1)]])
          \<lparr>year = 2024, week = 1\<rparr>) = Inr ()"
    "map_of (entries (snd (FileSystemLayer_delete (granted_directory [year_file 2024 [(1, week_2024_1)]])
          \<lparr>year = 2024, week = 1\<rparr>))) ''work-journal-2024.json'' = None"
    by (simp_all add: granted_directory_ready getFileName_2024)
  from t_several f2 have c: "fst (FileSystemLayer_delete (granted_directory [year_file 2024 [(1, week_2024_1), (15, week_2024_15 [])]])
          \<lparr>year = 2024, week = 1\<rparr>) = Inr ()"
    by (simp add: granted_directory_ready getFileName_2024)
  from t_several f2 have c': "\<exists>j. map_of (entries (snd (FileSystemLayer_delete
            (granted_directory [year_file 2024 [(1, week_2024_1), (15, week_2024_15 [])]])
            \<lparr>year = 2024, week = 1\<rparr>))) ''work-journal-2024.json'' = Some (JournalFile j)
       \<and> map_of (weeks j) 1 = None
       \<and> map_of (weeks j) 15 = Some (week_2024_15 [])"
    by (fastforce simp add: granted_directory_ready getFileName_2024)
  from s a b c c' show ?thesis by blast
qed

subsection \<open>Range queries\<close>

lemma FileSystemLayer_getRange_sorted:
  "fst (FileSystemLayer_getRange st s t) = Inr rs \<Longrightarrow> sorted_wrt (\<lambda>a b. week_le (weekId a) (weekId b)) rs"
  by (auto simp: FileSystemLayer_getRange_def sorted_by_compareWeeks split: prod.splits sum.splits)

text \<open>
  C5. In both layers the sequence \<^verbatim>\<open>getRange\<close> returns is sorted ascending by year, then
  week; so the records of an earlier year come before those of a later year.
\<close>

theorem getRange_is_sorted_by_year_then_week:
  "(fst (IndexedDBLayer_getRange db s t) = Inr rs \<longrightarrow>
      sorted_wrt (\<lambda>a b. week_le (weekId a) (weekId b)) rs) \<and>
   (fst (FileSystemLayer_getRange st s t) = Inr rs' \<longrightarrow>
      sorted_wrt (\<lambda>a b. week_le (weekId a) (weekId b)) rs')"
  using IndexedDBLayer_getRange_sorted [of db s t rs] FileSystemLayer_getRange_sorted [of st s t rs']
  by blast


lemma parseFileName_2024: "parseFileName ''work-journal-2024.json'' = Some 2024"
  by (simp add: parseFileName_def is_digit_def parseInt_def digit_value_def)

lemma parseFileName_2023: "parseFileName ''work-journal-2023.json'' = Some 2023"
  by (simp add: parseFileName_def is_digit_def parseInt_def digit_value_def)

lemma endsWith_json: "endsWith ''work-journal-2024.json'' ''.json''" "endsWith ''work-journal-2023.json'' ''.json''"
  by (simp_all add: endsWith_def)

lemmas fs_range_defs =
  FileSystemLayer_getRange_def isInRange_def compareWeeks_def array_sort_def
  getFileName_2024 getFileName_2023 parseFileName_2024 parseFileName_2023 endsWith_json

text \<open>
  The theorem at the range from week 52 of 2023 to week 1 of 2024, on a store and on a
  directory that list 2024 before 2023: both layers return the week of 2023 first.
\<close>

theorem getRange_is_sorted_by_year_then_week_witness:
  "fst (IndexedDBLayer_getRange (healthy_db [week_2024_1, week_2023_52])
          \<lparr>year = 2023, week = 52\<rparr> \<lparr>year = 2024, week = 1\<rparr>) = Inr [week_2023_52, week_2024_1] \<and>
   fst (FileSystemLayer_getRange
          (granted_directory [year_file 2024 [(1, week_2024_1)], year_file 2023 [(52, week_2023_52)]])
          \<lparr>year = 2023, week = 52\<rparr> \<lparr>year = 2024, week = 1\<rparr>) = Inr [week_2023_52, week_2024_1] \<and>
   sorted_wrt (\<lambda>a b. week_le (weekId a) (weekId b)) [week_2023_52, week_2024_1]"
proof -
  have a: "fst (IndexedDBLayer_getRange (healthy_db [week_2024_1, week_2023_52])
          \<lparr>year = 2023, week = 52\<rparr> \<lparr>year = 2024, week = 1\<rparr>) = Inr [week_2023_52, week_2024_1]"
    by (simp add: example_defs idb_layer_defs)
  have b: "fst (FileSystemLayer_getRange
          (granted_directory [year_file 2024 [(1, week_2024_1)], year_file 2023 [(52, week_2023_52)]])
          \<lparr>year = 2023, week = 52\<rparr> \<lparr>year = 2024, week = 1\<rparr>) = Inr [week_2023_52, week_2024_1]"
    by (simp add: fs_example_defs example_defs fs_range_defs fs_layer_defs)
  from getRange_is_sorted_by_year_then_week
    [of "healthy_db [week_2024_1, week_2023_52]" "\<lparr>year = 2023, week = 52\<rparr>" "\<lparr>year = 2024, week = 1\<rparr>"
        "[week_2023_52, week_2024_1]"] a
  have "sorted_wrt (\<lambda>a b. week_le (weekId a) (weekId b)) [week_2023_52, week_2024_1]"
    by blast
  with a b show ?thesis by blast
qed

lemma isInRange_week_le: "isInRange y k s t \<Longrightarrow> week_le s t"
  by (auto simp: isInRange_def week_le_def)

lemma getRange_loop_inverted:
  "\<not> week_le s t \<Longrightarrow> fst (getRange_loop st s t es acc) = Inr rs \<Longrightarrow> rs = acc"
proof (induction es arbitrary: st acc)
  case Nil
  then show ?case by simp
next
  case (Cons p es)
  obtain n ent where p: "p = (n, ent)" by (cases p)
  have none: "filter (\<lambda>q. isInRange y (fst q) s t) ws = []" for y and ws :: "(int \<times> WeeklyData) list"
    using Cons.prems(1) isInRange_week_le by (auto simp: filter_empty_conv)
  from Cons.prems(2) show ?case
    unfolding p
    by (auto simp: none split: if_splits option.splits prod.splits sum.splits
          dest: Cons.IH [OF Cons.prems(1)])
qed

lemma FileSystemLayer_getRange_inverted:
  assumes "\<not> week_le s t" and "fst (FileSystemLayer_getRange st s t) = Inr rs"
  shows "rs = []"
proof -
  obtain r st1 where g: "getDirectoryHandle st = (r, st1)" by (cases "getDirectoryHandle st")
  obtain res st2 where l: "getRange_loop st1 s t (entries st1) [] = (res, st2)"
    by (cases "getRange_loop st1 s t (entries st1) []")
  from assms(2) g l obtain results where res: "res = Inr results" and rs: "rs = array_sort compareWeeks results"
    by (auto simp: FileSystemLayer_getRange_def split: sum.splits)
  from getRange_loop_inverted [OF assms(1), of st1 "entries st1" "[]" results] l res
  have "results = []" by simp
  with rs show ?thesis by (simp add: array_sort_def)
qed

text \<open>
  C3 fails in the embedded store. With the end key before the start key
  \<^verbatim>\<open>IDBKeyRange.bound\<close> throws, so \<^verbatim>\<open>getRange({2024,10},{2024,5})\<close> is rejected with a
  \<^verbatim>\<open>DataError\<close> on any database that opens, whatever it holds. The file layer answers the
  same call with the empty sequence.
\<close>

theorem IndexedDBLayer_getRange_end_before_start:
  "fst (IndexedDBLayer_getRange (healthy_db recs) \<lparr>year = 2024, week = 10\<rparr> \<lparr>year = 2024, week = 5\<rparr>)
     = Inl (JsError ''DataError'' ''The data provided does not meet requirements.'') \<and>
   fst (FileSystemLayer_getRange (granted_directory [year_file 2024 [(7, week_2024_1)]])
          \<lparr>year = 2024, week = 10\<rparr> \<lparr>year = 2024, week = 5\<rparr>) = Inr []"
  by (simp add: IndexedDBLayer_getRange_inverted week_le_def
        fs_example_defs example_defs fs_range_defs fs_layer_defs)


subsection \<open>File names of four-digit years\<close>












subsection \<open>A year and the range of its weeks\<close>












text \<open>
  The condition on a year file is one the layer keeps: a \<^verbatim>\<open>save\<close> of a week from 1 to 53
  leaves the file of its year with week numbers from 1 to 53 and records of that year,
  when the file was so before or did not exist.
\<close>

lemma set_obj_add: "set (obj_add k v ps) = insert (k, v) (set ps)"
  by (induction ps) auto

lemma set_obj_set: "set (obj_set k v ps) \<subseteq> insert (k, v) (set ps)"
  by (auto simp: obj_set_def set_obj_add split: if_splits)

lemma FileSystemLayer_save_keeps_year_file:
  assumes ok: "fst (FileSystemLayer_save st input) = Inr r"
    and wk: "1 \<le> week (in_weekId input)" "week (in_weekId input) \<le> 53"
    and wf: "\<forall>j. map_of (entries st) (getFileName (year (in_weekId input))) = Some (JournalFile j) \<longrightarrow>
               (\<forall>p\<in>set (weeks j). 1 \<le> fst p \<and> fst p \<le> 53 \<and> year (weekId (snd p)) = year (in_weekId input))"
  shows "\<forall>j. map_of (entries (snd (FileSystemLayer_save st input))) (getFileName (year (in_weekId input)))
               = Some (JournalFile j) \<longrightarrow>
             (\<forall>p\<in>set (weeks j). 1 \<le> fst p \<and> fst p \<le> 53 \<and> year (weekId (snd p)) = year (in_weekId input))"
proof -
  from ok obtain found yearData es where
    ready: "fst (getDirectoryHandle st) = Inr ()"
    and rf: "fst (readYearFile st (year (in_weekId input))) = Inr found"
    and yd: "yearData = (case found of Some j \<Rightarrow> j | None \<Rightarrow> \<lparr>yj_year = year (in_weekId input), weeks = []\<rparr>)"
    and r: "r = buildDataToSave input (in_weekId input) (map_of (weeks yearData) (week (in_weekId input)))"
    and wr: "dir_writeFile (getFileName (year (in_weekId input)))
       (yearData\<lparr>weeks := obj_set (week (in_weekId input)) r (weeks yearData)\<rparr>) (entries st) = Inr es"
    and s: "snd (FileSystemLayer_save st input) = (snd (getDirectoryHandle st))\<lparr>entries := es\<rparr>"
    by (rule FileSystemLayer_save_cases)
  have old: "\<forall>p\<in>set (weeks yearData). 1 \<le> fst p \<and> fst p \<le> 53 \<and> year (weekId (snd p)) = year (in_weekId input)"
  proof (cases found)
    case None
    then show ?thesis by (simp add: yd)
  next
    case (Some j)
    with rf have "map_of (entries st) (getFileName (year (in_weekId input))) = Some (JournalFile j)"
      unfolding readYearFile_ready [OF ready] by (auto split: option.splits entry.splits)
    with wf Some show ?thesis by (simp add: yd)
  qed
  have new: "weekId r = in_weekId input" by (simp add: r buildDataToSave_def)
  have "\<forall>p\<in>set (obj_set (week (in_weekId input)) r (weeks yearData)).
      1 \<le> fst p \<and> fst p \<le> 53 \<and> year (weekId (snd p)) = year (in_weekId input)"
    using set_obj_set [of "week (in_weekId input)" r "weeks yearData"] old wk new by auto
  then show ?thesis
    unfolding s by (simp add: dir_writeFile_lookup [OF wr])
qed






end
